theory Spec2Isabelle
  imports Main
begin

section \<open>Failures and call outcomes\<close>

text \<open>
  The two messages carried by \<open>IncompatibleLambdaError\<close> in \<open>wrapperBufferCheck\<close>:
  the receiving buffer is not large enough, or it is not aligned properly.
\<close>

datatype IncompatibleLambdaMessage = BufferTooSmall | BufferMisaligned

datatype exception =
    UninitializedLambdaError
  | IncompatibleLambdaError IncompatibleLambdaMessage
  | ForeignException nat

text \<open>
  What evaluating a call or a statement ends in: a value, an exception that propagates to
  the caller, \<open>std::terminate\<close>, or no defined behaviour at all (a virtual call or a
  destructor call on storage that holds no live object, a dereferenced null pointer).
\<close>

datatype 'v outcome = Returns 'v | Throws exception | Terminates | Undefined

text \<open>An exception that leaves a \<open>noexcept\<close> function terminates the process.\<close>

fun noexcept :: "'v outcome \<Rightarrow> 'v outcome" where
  "noexcept (Throws e) = Terminates"
| "noexcept r = r"

section \<open>Configuration\<close>

text \<open>
  The two macros of the header, and the sizes and alignments of the two stub wrapper
  types, which the compiler fixes. Sizes and alignments are \<open>size_t\<close> values; they are
  only compared and never added, so they are modelled as natural numbers.
\<close>

record config =
  CX_LAMBDA_BUF_SIZE :: nat
  CX_LAMBDA_BUF_ALIGN :: nat
  sizeofNonAllocLambdaWrapperStub :: nat
  alignofNonAllocLambdaWrapperStub :: nat
  sizeofAllocLambdaWrapperStub :: nat
  alignofAllocLambdaWrapperStub :: nat

text \<open>The two \<open>static_assert\<close>s that follow \<open>NonAllocLambdaWrapperStub\<close>.\<close>

definition staticAssertions :: "config \<Rightarrow> bool" where
  "staticAssertions cfg =
     (alignofNonAllocLambdaWrapperStub cfg \<le> CX_LAMBDA_BUF_ALIGN cfg
      \<and> sizeofNonAllocLambdaWrapperStub cfg \<le> CX_LAMBDA_BUF_SIZE cfg)"

section \<open>Callables\<close>

text \<open>
  A callable \<open>F\<close> handed to a lambda: what its body does on an argument pack (for a
  c-variadic prototype the pack is the fixed prefix together with the trailing
  arguments), the qualifiers of its prototype, whether it is a class type with
  \<open>operator()\<close> or a static function, and the layout of the two wrapper types
  instantiated for it.
\<close>

record ('a, 'r) Functor =
  body :: "'a \<Rightarrow> 'r outcome"
  isNoexcept :: bool
  isVariadic :: bool
  isStruct :: bool
  sizeofNonAllocLambdaWrapper :: nat
  alignofNonAllocLambdaWrapper :: nat
  sizeofAllocLambdaWrapper :: nat
  alignofAllocLambdaWrapper :: nat

text \<open>The expression \<open>f(args...)\<close>.\<close>

definition invoke :: "('a, 'r) Functor \<Rightarrow> 'a \<Rightarrow> 'r outcome" where
  "invoke f args = (if isNoexcept f then noexcept (body f args) else body f args)"

text \<open>
  The four prototypes a \<open>Lambda\<close> is specialised for: \<open>R (Args...)\<close>,
  \<open>R (Args...) noexcept\<close>, \<open>R (Args..., ...)\<close> and \<open>R (Args..., ...) noexcept\<close>.
  Parameter and return types are the HOL types \<open>'a\<close> and \<open>'r\<close>.
\<close>

record Prototype =
  cVariadic :: bool
  noexceptQualified :: bool


section \<open>Payload records\<close>

text \<open>
  The object living at the front of a lambda buffer: one of the four classes derived
  from \<open>LambdaBase\<close>. The stubs and \<open>AllocLambdaWrapper\<close> store the size and alignment of
  the buffer they were constructed in; \<open>NonAllocLambdaWrapper\<close> ignores them.
\<close>

datatype ('a, 'r) LambdaBase =
    NonAllocLambdaWrapperStub nat nat
  | AllocLambdaWrapperStub nat nat
  | NonAllocLambdaWrapper "('a, 'r) Functor"
  | AllocLambdaWrapper "('a, 'r) Functor" nat nat

fun op :: "('a, 'r) LambdaBase \<Rightarrow> 'a \<Rightarrow> 'r outcome" where
  "op (NonAllocLambdaWrapper f) args = invoke f args"
| "op (AllocLambdaWrapper f s a) args = invoke f args"
| "op w args = Throws UninitializedLambdaError"

fun noexceptOp :: "('a, 'r) LambdaBase \<Rightarrow> 'a \<Rightarrow> 'r outcome" where
  "noexceptOp (NonAllocLambdaWrapper f) args = noexcept (invoke f args)"
| "noexceptOp (AllocLambdaWrapper f s a) args = noexcept (invoke f args)"
| "noexceptOp w args = noexcept (Throws UninitializedLambdaError)"

fun allocates :: "('a, 'r) LambdaBase \<Rightarrow> bool" where
  "allocates (NonAllocLambdaWrapperStub s a) = False"
| "allocates (AllocLambdaWrapperStub s a) = True"
| "allocates (NonAllocLambdaWrapper f) = False"
| "allocates (AllocLambdaWrapper f s a) = True"

fun typeSize :: "config \<Rightarrow> ('a, 'r) LambdaBase \<Rightarrow> nat" where
  "typeSize cfg (NonAllocLambdaWrapperStub s a) = sizeofNonAllocLambdaWrapperStub cfg"
| "typeSize cfg (AllocLambdaWrapperStub s a) = sizeofAllocLambdaWrapperStub cfg"
| "typeSize cfg (NonAllocLambdaWrapper f) = sizeofNonAllocLambdaWrapper f"
| "typeSize cfg (AllocLambdaWrapper f s a) = sizeofAllocLambdaWrapper f"

fun typeAlignment :: "config \<Rightarrow> ('a, 'r) LambdaBase \<Rightarrow> nat" where
  "typeAlignment cfg (NonAllocLambdaWrapperStub s a) = alignofNonAllocLambdaWrapperStub cfg"
| "typeAlignment cfg (AllocLambdaWrapperStub s a) = alignofAllocLambdaWrapperStub cfg"
| "typeAlignment cfg (NonAllocLambdaWrapper f) = alignofNonAllocLambdaWrapper f"
| "typeAlignment cfg (AllocLambdaWrapper f s a) = alignofAllocLambdaWrapper f"

fun bufferSize :: "config \<Rightarrow> ('a, 'r) LambdaBase \<Rightarrow> nat" where
  "bufferSize cfg (NonAllocLambdaWrapperStub s a) = s"
| "bufferSize cfg (AllocLambdaWrapperStub s a) = s"
| "bufferSize cfg (NonAllocLambdaWrapper f) = CX_LAMBDA_BUF_SIZE cfg"
| "bufferSize cfg (AllocLambdaWrapper f s a) = s"

fun bufferAlignment :: "config \<Rightarrow> ('a, 'r) LambdaBase \<Rightarrow> nat" where
  "bufferAlignment cfg (NonAllocLambdaWrapperStub s a) = a"
| "bufferAlignment cfg (AllocLambdaWrapperStub s a) = a"
| "bufferAlignment cfg (NonAllocLambdaWrapper f) = CX_LAMBDA_BUF_ALIGN cfg"
| "bufferAlignment cfg (AllocLambdaWrapper f s a) = a"

fun present :: "('a, 'r) LambdaBase \<Rightarrow> bool" where
  "present (NonAllocLambdaWrapper f) = True"
| "present (AllocLambdaWrapper f s a) = True"
| "present w = False"

subsection \<open>The c-variadic call path\<close>

text \<open>
  \<open>FptrWrapper\<close> holds a static function pointer, or an instance pointer together with
  the member pointer of its \<open>operator()\<close>; \<open>memberPtr\<close> is the test
  \<open>memberPtr.lo || memberPtr.hi\<close>. The two branches of \<open>invoke\<close> call the same callable,
  as a member function or as a static function.
\<close>

datatype ('a, 'r) FptrWrapper =
  FptrWrapper (fptrOrInst: "('a, 'r) Functor") (memberPtr: bool)

fun FptrWrapper_invoke :: "bool \<Rightarrow> ('a, 'r) FptrWrapper \<Rightarrow> 'a \<Rightarrow> 'r outcome" where
  "FptrWrapper_invoke Noexcept (FptrWrapper target member) args =
     (let r = (if member then invoke target args else invoke target args)
      in if Noexcept then noexcept r else r)"

fun get :: "('a, 'r) LambdaBase \<Rightarrow> ('a, 'r) FptrWrapper outcome" where
  "get (NonAllocLambdaWrapper f) = Returns (FptrWrapper f (isStruct f))"
| "get (AllocLambdaWrapper f s a) = Returns (FptrWrapper f (isStruct f))"
| "get w = Throws UninitializedLambdaError"

text \<open>\<open>LambdaBase<R (Args..., ...)>::op<Noexcept>\<close>: \<open>get().invoke<Noexcept>(...)\<close>.\<close>

definition op_variadic :: "bool \<Rightarrow> ('a, 'r) LambdaBase \<Rightarrow> 'a \<Rightarrow> 'r outcome" where
  "op_variadic Noexcept w args =
     (let r = (case get w of
                 Returns fw \<Rightarrow> FptrWrapper_invoke Noexcept fw args
               | Throws e \<Rightarrow> Throws e
               | Terminates \<Rightarrow> Terminates
               | Undefined \<Rightarrow> Undefined)
      in if Noexcept then noexcept r else r)"

section \<open>Buffer checks\<close>

definition wrapperBufferCheck :: "nat \<Rightarrow> nat \<Rightarrow> nat \<Rightarrow> nat \<Rightarrow> unit outcome" where
  "wrapperBufferCheck srcSize srcAlignment dstSize dstAlignment =
     (if dstSize < srcSize then Throws (IncompatibleLambdaError BufferTooSmall)
      else if dstAlignment < srcAlignment then Throws (IncompatibleLambdaError BufferMisaligned)
      else Returns ())"

text \<open>
  The compile-time check done before a callable is assigned to a \<open>Lambda\<close>. Both
  assertions compare the wrapper's alignment; the wrapper's size is checked at run time
  only, by \<open>wrapperBufferCheck\<close>.
\<close>

definition lambdaAssignBufferCheck :: "('a, 'r) Functor \<Rightarrow> nat \<Rightarrow> nat \<Rightarrow> bool" where
  "lambdaAssignBufferCheck f Size Alignment =
     (alignofNonAllocLambdaWrapper f \<le> Alignment \<and> alignofNonAllocLambdaWrapper f \<le> Size)"

section \<open>Compatibility of lambda types\<close>

text \<open>
  Types as the compatibility meta-function sees them: a function type with its return
  type, parameter types, c-variadic flag and \<open>noexcept\<close> flag; a template applied to one
  type argument; any other type. \<open>ConstVolatileDecayed\<close> has been applied already.
\<close>

datatype template1 = Lambda | AllocLambda | OtherTemplate nat

datatype cxtype =
    OtherType nat
  | FunctionType cxtype "cxtype list" bool bool
  | Instance template1 cxtype

text \<open>
  Modelled from the spec: \<open>CX::MatchAnyTemplateType\<close> of \<open>cx/templates.h\<close> is not among the
  sources. It is the template-identity comparison: the first template is one of the
  others.
\<close>

definition IsLambdaTemplate :: "template1 \<Rightarrow> bool" where
  "IsLambdaTemplate T = (T = Lambda \<or> T = AllocLambda)"

text \<open>
  Modelled from the spec: \<open>cx/idioms.h\<close>, which declares \<open>CX::NoexceptFunction\<close> and
  \<open>CX::SameType\<close>, is not among the sources. \<open>NoexceptFunction\<close> holds of the function
  types that carry the non-throwing qualifier; \<open>SameType\<close> is identity of types, written
  \<open>=\<close> below.
\<close>

fun NoexceptFunction :: "cxtype \<Rightarrow> bool" where
  "NoexceptFunction (FunctionType R Args variadic ne) = ne"
| "NoexceptFunction T = False"

text \<open>
  \<open>LambdaMetaFunctions::CompatibleLambda<T1, T2>::Value\<close>. The primary template is
  false. Of the two partial specialisations for \<open>L1<Prototype1>, L2<Prototype2>\<close> the
  second carries the constraints of the first and two more, so it is the one chosen
  whenever its constraints hold.
\<close>

fun LambdaMetaFunctions_CompatibleLambda :: "cxtype \<Rightarrow> cxtype \<Rightarrow> bool" where
  "LambdaMetaFunctions_CompatibleLambda (Instance L1 Prototype1) (Instance L2 Prototype2) =
     (if IsLambdaTemplate L1 \<and> IsLambdaTemplate L2
         \<and> \<not> NoexceptFunction Prototype1 \<and> NoexceptFunction Prototype2
      then True
      else if IsLambdaTemplate L1 \<and> IsLambdaTemplate L2
      then Prototype1 = Prototype2
      else False)"
| "LambdaMetaFunctions_CompatibleLambda T1 T2 = False"

text \<open>
  The concept \<open>CX::CompatibleLambda<L2, L1>\<close>, which swaps its arguments. In
  \<open>template<CompatibleLambda<Lambda> L> Lambda(L const &)\<close> the first argument \<open>L2\<close> is
  the source type \<open>L\<close> and the second, \<open>L1\<close>, the destination.
\<close>

definition CompatibleLambda :: "cxtype \<Rightarrow> cxtype \<Rightarrow> bool" where
  "CompatibleLambda L2 L1 = LambdaMetaFunctions_CompatibleLambda L1 L2"

text \<open>
  The specialisations that declare members. \<open>Lambda\<close> is defined for the four function
  prototypes. \<open>AllocLambda\<close> is defined for \<open>R (Args...)\<close> alone:
  \<open>AllocLambda<R (Args...) noexcept>\<close>, \<open>AllocLambda<R (Args..., ...)>\<close> and
  \<open>AllocLambda<R (Args..., ...) noexcept>\<close> are empty structs. The primary templates are
  declared and never defined.
\<close>

fun declaresMembers :: "cxtype \<Rightarrow> bool" where
  "declaresMembers (Instance Lambda (FunctionType R Args variadic ne)) = True"
| "declaresMembers (Instance AllocLambda (FunctionType R Args variadic ne)) =
     (\<not> variadic \<and> \<not> ne)"
| "declaresMembers T = False"

text \<open>
  The converting constructors and assignment operators of a lambda type that declares
  members are the templates \<open>template<CompatibleLambda<Lambda> L>\<close> taking an \<open>L\<close>: the
  class is the destination and \<open>L\<close> the source. The explicit conversion operator
  \<open>template<CompatibleLambda<Lambda> L> explicit operator L() const\<close> of such a type
  carries the same constraint, where the class is the source and \<open>L\<close> the target.
\<close>

definition convertingConstructor :: "cxtype \<Rightarrow> cxtype \<Rightarrow> bool" where
  "convertingConstructor destination L =
     (declaresMembers destination \<and> CompatibleLambda L destination)"

definition conversionOperator :: "cxtype \<Rightarrow> cxtype \<Rightarrow> bool" where
  "conversionOperator source L = (declaresMembers source \<and> CompatibleLambda L source)"

section \<open>Storage\<close>

text \<open>
  A buffer either holds a live object derived from \<open>LambdaBase\<close> or holds none (fresh
  from \<open>operator new\<close>, or after \<open>destroy\<close>).
\<close>

datatype ('a, 'r) storage = Raw | Object "('a, 'r) LambdaBase"

text \<open>A \<open>Lambda\<close> has one member, its inline buffer.\<close>

type_synonym ('a, 'r) Lambda = "('a, 'r) storage"

text \<open>
  Heap buffers. A block is what one \<open>operator new\<close> returned, together with the use
  count of the \<open>shared_ptr\<close> control block that owns it (zero until a \<open>shared_ptr\<close> adopts
  it). Addresses are handed out in increasing order.
\<close>

type_synonym addr = nat

type_synonym pointer = "addr option"

record ('a, 'r) block =
  contents :: "('a, 'r) storage"
  useCount :: nat
  allocSize :: nat
  allocAlignment :: nat

record ('a, 'r) heap =
  blocks :: "addr \<Rightarrow> ('a, 'r) block option"
  fresh :: addr

text \<open>An \<open>AllocLambda\<close> has one member, \<open>std::shared_ptr<unsigned char> buffer\<close>.\<close>

type_synonym AllocLambda = pointer

definition operator_new :: "nat \<Rightarrow> nat \<Rightarrow> ('a, 'r) heap \<Rightarrow> pointer \<times> ('a, 'r) heap" where
  "operator_new sz al h =
     (Some (fresh h),
      h\<lparr>blocks := (blocks h)(fresh h \<mapsto>
           \<lparr>contents = Raw, useCount = 0, allocSize = sz, allocAlignment = al\<rparr>),
        fresh := Suc (fresh h)\<rparr>)"

text \<open>The live object a pointer points to, if any.\<close>

definition object_at :: "('a, 'r) heap \<Rightarrow> pointer \<Rightarrow> ('a, 'r) LambdaBase option" where
  "object_at h p =
     (case p of
        None \<Rightarrow> None
      | Some a \<Rightarrow>
          (case blocks h a of
             None \<Rightarrow> None
           | Some b \<Rightarrow> (case contents b of Raw \<Rightarrow> None | Object w \<Rightarrow> Some w)))"

text \<open>Overwrite the contents of the block a pointer points to.\<close>

definition set_contents ::
  "pointer \<Rightarrow> ('a, 'r) storage \<Rightarrow> ('a, 'r) heap \<Rightarrow> unit outcome \<times> ('a, 'r) heap" where
  "set_contents p c h =
     (case p of
        None \<Rightarrow> (Undefined, h)
      | Some a \<Rightarrow>
          (case blocks h a of
             None \<Rightarrow> (Undefined, h)
           | Some b \<Rightarrow> (Returns (), h\<lparr>blocks := (blocks h)(a \<mapsto> b\<lparr>contents := c\<rparr>)\<rparr>)))"

text \<open>\<open>destroy\<close>: the virtual destructor call \<open>(*(LambdaBase *)buffer).~LambdaBase()\<close>.\<close>

definition destroy :: "('a, 'r) storage \<Rightarrow> unit outcome \<times> ('a, 'r) storage" where
  "destroy buffer = (case buffer of Raw \<Rightarrow> (Undefined, Raw) | Object w \<Rightarrow> (Returns (), Raw))"

definition destroy_at :: "pointer \<Rightarrow> ('a, 'r) heap \<Rightarrow> unit outcome \<times> ('a, 'r) heap" where
  "destroy_at p h =
     (case object_at h p of None \<Rightarrow> (Undefined, h) | Some w \<Rightarrow> set_contents p Raw h)"

section \<open>Reallocation of heap buffers\<close>

text \<open>
  \<open>checkOrReallocate<Wrapper>(buffer, size, alignment)\<close>: \<open>wrapperSize\<close> and
  \<open>wrapperAlignment\<close> are \<open>sizeof(Wrapper)\<close> and \<open>alignof(Wrapper)\<close>. The three reference
  parameters are returned updated.
\<close>

definition checkOrReallocate ::
  "config \<Rightarrow> nat \<Rightarrow> nat \<Rightarrow> pointer \<Rightarrow> nat \<Rightarrow> nat \<Rightarrow> ('a, 'r) heap
     \<Rightarrow> (pointer \<times> nat \<times> nat) \<times> ('a, 'r) heap" where
  "checkOrReallocate cfg wrapperSize wrapperAlignment buffer size0 alignment h =
     (if size0 = 0 \<and> alignment = 0 then
        (let size1 = max (CX_LAMBDA_BUF_SIZE cfg) wrapperSize;
             alignment1 = max (CX_LAMBDA_BUF_ALIGN cfg) wrapperAlignment;
             (p, h1) = operator_new size1 alignment1 h
         in ((p, size1, alignment1), h1))
      else if size0 < wrapperSize \<or> alignment < wrapperAlignment then
        (let (p, h1) = operator_new wrapperSize wrapperAlignment h
         in ((p, wrapperSize, wrapperAlignment), h1))
      else ((buffer, size0, alignment), h))"

section \<open>Constructing a wrapper in a buffer\<close>

text \<open>
  \<open>copyInitWrapper<Wrapper>\<close> and \<open>moveInitWrapper<Wrapper>\<close> of
  \<open>LambdaOperationBase<..., false>\<close>, where \<open>Wrapper\<close> is \<open>NonAllocLambdaWrapper<F>\<close>: the
  buffer check, then the placement new. The callable is a value here, so constructing the
  wrapper by copy and by move give the same wrapper.
\<close>

definition copyInitWrapper_NonAlloc ::
  "('a, 'r) Functor \<Rightarrow> nat \<Rightarrow> nat \<Rightarrow> ('a, 'r) storage \<Rightarrow> unit outcome \<times> ('a, 'r) storage" where
  "copyInitWrapper_NonAlloc func bufSize bufAlignment buf =
     (let r = wrapperBufferCheck (sizeofNonAllocLambdaWrapper func)
                (alignofNonAllocLambdaWrapper func) bufSize bufAlignment
      in if r \<noteq> Returns () then (r, buf)
         else (Returns (), Object (NonAllocLambdaWrapper func)))"

definition moveInitWrapper_NonAlloc ::
  "('a, 'r) Functor \<Rightarrow> nat \<Rightarrow> nat \<Rightarrow> ('a, 'r) storage \<Rightarrow> unit outcome \<times> ('a, 'r) storage" where
  "moveInitWrapper_NonAlloc func bufSize bufAlignment buf =
     (let r = wrapperBufferCheck (sizeofNonAllocLambdaWrapper func)
                (alignofNonAllocLambdaWrapper func) bufSize bufAlignment
      in if r \<noteq> Returns () then (r, buf)
         else (Returns (), Object (NonAllocLambdaWrapper func)))"

text \<open>
  The same two functions of \<open>LambdaOperationBase<..., true>\<close>, where \<open>Wrapper\<close> is
  \<open>AllocLambdaWrapper<F>\<close>: no buffer check, and the wrapper records the buffer's size
  and alignment.
\<close>

definition copyInitWrapper_Alloc ::
  "('a, 'r) Functor \<Rightarrow> nat \<Rightarrow> nat \<Rightarrow> pointer \<Rightarrow> ('a, 'r) heap \<Rightarrow> unit outcome \<times> ('a, 'r) heap" where
  "copyInitWrapper_Alloc func bufSize bufAlignment buf h =
     set_contents buf (Object (AllocLambdaWrapper func bufSize bufAlignment)) h"

definition moveInitWrapper_Alloc ::
  "('a, 'r) Functor \<Rightarrow> nat \<Rightarrow> nat \<Rightarrow> pointer \<Rightarrow> ('a, 'r) heap \<Rightarrow> unit outcome \<times> ('a, 'r) heap" where
  "moveInitWrapper_Alloc func bufSize bufAlignment buf h =
     set_contents buf (Object (AllocLambdaWrapper func bufSize bufAlignment)) h"

section \<open>The reference-counted buffer of an AllocLambda\<close>

text \<open>
  \<open>sharedBufferDeleter\<close>: reads the alignment through a virtual call, destroys the
  object and deletes the block.
\<close>

definition sharedBufferDeleter ::
  "config \<Rightarrow> pointer \<Rightarrow> ('a, 'r) heap \<Rightarrow> unit outcome \<times> ('a, 'r) heap" where
  "sharedBufferDeleter cfg ptr h =
     (case ptr of
        None \<Rightarrow> (Returns (), h)
      | Some a \<Rightarrow>
          (case object_at h ptr of
             None \<Rightarrow> (Undefined, h)
           | Some base \<Rightarrow>
               (let alignment = bufferAlignment cfg base;
                    (r, h1) = destroy_at ptr h
                in if r \<noteq> Returns () then (r, h1)
                   else (Returns (), h1\<lparr>blocks := (blocks h1)(a := None)\<rparr>))))"

text \<open>A \<open>shared_ptr\<close> gives up its share: the last owner runs the deleter.\<close>

definition release ::
  "config \<Rightarrow> pointer \<Rightarrow> ('a, 'r) heap \<Rightarrow> unit outcome \<times> ('a, 'r) heap" where
  "release cfg sp h =
     (case sp of
        None \<Rightarrow> (Returns (), h)
      | Some a \<Rightarrow>
          (case blocks h a of
             None \<Rightarrow> (Undefined, h)
           | Some b \<Rightarrow>
               if useCount b \<le> 1 then sharedBufferDeleter cfg sp h
               else (Returns (), h\<lparr>blocks := (blocks h)(a \<mapsto> b\<lparr>useCount := useCount b - 1\<rparr>)\<rparr>)))"

text \<open>One more \<open>shared_ptr\<close> owns the block.\<close>

definition acquire :: "pointer \<Rightarrow> ('a, 'r) heap \<Rightarrow> ('a, 'r) heap" where
  "acquire sp h =
     (case sp of
        None \<Rightarrow> h
      | Some a \<Rightarrow>
          (case blocks h a of
             None \<Rightarrow> h
           | Some b \<Rightarrow> h\<lparr>blocks := (blocks h)(a \<mapsto> b\<lparr>useCount := Suc (useCount b)\<rparr>)\<rparr>))"

text \<open>
  \<open>buf = other\<close>, \<open>buf.reset(ptr, sharedBufferDeleter)\<close> and \<open>buf.reset()\<close>. Each returns
  the new value of \<open>buf\<close>.
\<close>

definition shared_ptr_assign ::
  "config \<Rightarrow> pointer \<Rightarrow> pointer \<Rightarrow> ('a, 'r) heap \<Rightarrow> (unit outcome \<times> pointer) \<times> ('a, 'r) heap" where
  "shared_ptr_assign cfg buf other h =
     (let (r, h1) = release cfg buf (acquire other h) in ((r, other), h1))"

definition shared_ptr_reset_to ::
  "config \<Rightarrow> pointer \<Rightarrow> pointer \<Rightarrow> ('a, 'r) heap \<Rightarrow> (unit outcome \<times> pointer) \<times> ('a, 'r) heap" where
  "shared_ptr_reset_to cfg buf ptr h =
     (let (r, h1) = release cfg buf (acquire ptr h) in ((r, ptr), h1))"

definition shared_ptr_reset ::
  "config \<Rightarrow> pointer \<Rightarrow> ('a, 'r) heap \<Rightarrow> (unit outcome \<times> pointer) \<times> ('a, 'r) heap" where
  "shared_ptr_reset cfg buf h = (let (r, h1) = release cfg buf h in ((r, None), h1))"

text \<open>
  \<open>allocLambdaBufferOp(buf, op)\<close>: run \<open>op\<close> on a copy of the raw pointer and adopt the
  pointer it leaves behind if it differs. \<open>op\<close> returns the pointer as it left it and the
  variables it captured by reference (\<open>'x\<close>). An exception of \<open>op\<close> skips the reset.
\<close>

definition allocLambdaBufferOp ::
  "config \<Rightarrow> pointer
     \<Rightarrow> (pointer \<Rightarrow> ('a, 'r) heap \<Rightarrow> (unit outcome \<times> pointer \<times> 'x) \<times> ('a, 'r) heap)
     \<Rightarrow> ('a, 'r) heap \<Rightarrow> (unit outcome \<times> pointer \<times> 'x) \<times> ('a, 'r) heap" where
  "allocLambdaBufferOp cfg buf operation h =
     (let ((r, bufPtr, x), h1) = operation buf h
      in if r \<noteq> Returns () then ((r, buf, x), h1)
         else if bufPtr \<noteq> buf then
           (let ((r2, buf2), h2) = shared_ptr_reset_to cfg buf bufPtr h1 in ((r2, buf2, x), h2))
         else ((Returns (), buf, x), h1))"

section \<open>Assigning a callable\<close>

text \<open>
  \<open>assignFunctionCommon<F, Copy>(l, f)\<close> for a \<open>Lambda\<close>: read the buffer's size and
  alignment from the record in place, destroy that record, then construct the wrapper.
\<close>

definition assignFunctionCommon_Lambda ::
  "config \<Rightarrow> bool \<Rightarrow> ('a, 'r) Lambda \<Rightarrow> ('a, 'r) Functor \<Rightarrow> unit outcome \<times> ('a, 'r) Lambda" where
  "assignFunctionCommon_Lambda cfg Copy l f =
     (case l of
        Raw \<Rightarrow> (Undefined, l)
      | Object lBase \<Rightarrow>
          (let lSize = bufferSize cfg lBase;
               lAlignment = bufferAlignment cfg lBase;
               (r, buf) = destroy l
           in if r \<noteq> Returns () then (r, buf)
              else if Copy then copyInitWrapper_NonAlloc f lSize lAlignment buf
              else moveInitWrapper_NonAlloc f lSize lAlignment buf))"

text \<open>
  The same for an \<open>AllocLambda\<close>: inside \<open>allocLambdaBufferOp\<close>, read the properties,
  \<open>checkOrReallocate\<close>, then destroy and construct at the pointer as
  \<open>checkOrReallocate\<close> left it.
\<close>

definition assignFunctionCommon_AllocLambda ::
  "config \<Rightarrow> bool \<Rightarrow> AllocLambda \<Rightarrow> ('a, 'r) Functor \<Rightarrow> ('a, 'r) heap
     \<Rightarrow> (unit outcome \<times> AllocLambda \<times> unit) \<times> ('a, 'r) heap" where
  "assignFunctionCommon_AllocLambda cfg Copy l f h =
     allocLambdaBufferOp cfg l
       (\<lambda>ptr h0.
          case object_at h0 ptr of
            None \<Rightarrow> ((Undefined, ptr, ()), h0)
          | Some lBase \<Rightarrow>
              (let lSize = bufferSize cfg lBase;
                   lAlignment = bufferAlignment cfg lBase;
                   ((lBufPtr, lSize1, lAlignment1), h1) =
                      checkOrReallocate cfg (sizeofAllocLambdaWrapper f)
                        (alignofAllocLambdaWrapper f) ptr lSize lAlignment h0;
                   (r, h2) = destroy_at lBufPtr h1
               in if r \<noteq> Returns () then ((r, lBufPtr, ()), h2)
                  else (let (r3, h3) =
                              (if Copy then copyInitWrapper_Alloc f lSize1 lAlignment1 lBufPtr h2
                               else moveInitWrapper_Alloc f lSize1 lAlignment1 lBufPtr h2)
                        in ((r3, lBufPtr, ()), h3))))
       h"

definition copyAssignFunction_Lambda ::
  "config \<Rightarrow> ('a, 'r) Lambda \<Rightarrow> ('a, 'r) Functor \<Rightarrow> unit outcome \<times> ('a, 'r) Lambda" where
  "copyAssignFunction_Lambda cfg l f = assignFunctionCommon_Lambda cfg True l f"

definition moveAssignFunction_Lambda ::
  "config \<Rightarrow> ('a, 'r) Lambda \<Rightarrow> ('a, 'r) Functor \<Rightarrow> unit outcome \<times> ('a, 'r) Lambda" where
  "moveAssignFunction_Lambda cfg l f = assignFunctionCommon_Lambda cfg False l f"

definition copyAssignFunction_AllocLambda ::
  "config \<Rightarrow> AllocLambda \<Rightarrow> ('a, 'r) Functor \<Rightarrow> ('a, 'r) heap
     \<Rightarrow> (unit outcome \<times> AllocLambda \<times> unit) \<times> ('a, 'r) heap" where
  "copyAssignFunction_AllocLambda cfg l f h = assignFunctionCommon_AllocLambda cfg True l f h"

definition moveAssignFunction_AllocLambda ::
  "config \<Rightarrow> AllocLambda \<Rightarrow> ('a, 'r) Functor \<Rightarrow> ('a, 'r) heap
     \<Rightarrow> (unit outcome \<times> AllocLambda \<times> unit) \<times> ('a, 'r) heap" where
  "moveAssignFunction_AllocLambda cfg l f h = assignFunctionCommon_AllocLambda cfg False l f h"

section \<open>Empty lambdas\<close>

text \<open>\<open>initEmptyLambda\<close> of \<open>LambdaOperationBase<..., false>\<close>.\<close>

definition initEmptyLambda_NonAlloc ::
  "config \<Rightarrow> ('a, 'r) storage \<Rightarrow> nat \<Rightarrow> nat \<Rightarrow> unit outcome \<times> ('a, 'r) storage" where
  "initEmptyLambda_NonAlloc cfg buffer size0 alignment =
     (let r = wrapperBufferCheck (sizeofNonAllocLambdaWrapperStub cfg)
                (alignofNonAllocLambdaWrapperStub cfg) size0 alignment
      in if r \<noteq> Returns () then (r, buffer)
         else (Returns (), Object (NonAllocLambdaWrapperStub size0 alignment)))"

text \<open>
  \<open>initEmptyLambda\<close> of \<open>LambdaOperationBase<..., true>\<close>; \<open>buffer\<close> is the \<open>void **\<close>, whose
  target is returned updated.
\<close>

definition initEmptyLambda_Alloc ::
  "config \<Rightarrow> pointer \<Rightarrow> nat \<Rightarrow> nat \<Rightarrow> ('a, 'r) heap
     \<Rightarrow> (unit outcome \<times> pointer \<times> unit) \<times> ('a, 'r) heap" where
  "initEmptyLambda_Alloc cfg buffer size0 alignment h =
     (let ((bufPtr, size1, alignment1), h1) =
             checkOrReallocate cfg (sizeofAllocLambdaWrapperStub cfg)
               (alignofAllocLambdaWrapperStub cfg) buffer size0 alignment h;
          (r, h2) = set_contents bufPtr (Object (AllocLambdaWrapperStub size1 alignment1)) h1
      in ((r, bufPtr, ()), h2))"

section \<open>Relocating a record into another buffer\<close>

text \<open>\<open>copyTo(dstBufPtr, dstBufSize, dstBufAlignment, allocating)\<close> with \<open>allocating\<close> false.\<close>

fun copyTo_NonAlloc ::
  "config \<Rightarrow> ('a, 'r) LambdaBase \<Rightarrow> ('a, 'r) storage \<Rightarrow> nat \<Rightarrow> nat
     \<Rightarrow> unit outcome \<times> ('a, 'r) storage" where
  "copyTo_NonAlloc cfg (NonAllocLambdaWrapperStub s a) dstBuf dstBufSize dstBufAlignment =
     (let r = wrapperBufferCheck
                (typeSize cfg (NonAllocLambdaWrapperStub s a :: ('a, 'r) LambdaBase))
                (typeAlignment cfg (NonAllocLambdaWrapperStub s a :: ('a, 'r) LambdaBase))
                dstBufSize dstBufAlignment
      in if r \<noteq> Returns () then (r, dstBuf)
         else (Returns (), Object (NonAllocLambdaWrapperStub dstBufSize dstBufAlignment)))"
| "copyTo_NonAlloc cfg (AllocLambdaWrapperStub s a) dstBuf dstBufSize dstBufAlignment =
     (let r = wrapperBufferCheck (sizeofNonAllocLambdaWrapperStub cfg)
                (alignofNonAllocLambdaWrapperStub cfg) dstBufSize dstBufAlignment
      in if r \<noteq> Returns () then (r, dstBuf)
         else (Returns (), Object (NonAllocLambdaWrapperStub dstBufSize dstBufAlignment)))"
| "copyTo_NonAlloc cfg (NonAllocLambdaWrapper f) dstBuf dstBufSize dstBufAlignment =
     copyInitWrapper_NonAlloc f dstBufSize dstBufAlignment dstBuf"
| "copyTo_NonAlloc cfg (AllocLambdaWrapper f s a) dstBuf dstBufSize dstBufAlignment =
     (let r = wrapperBufferCheck (sizeofNonAllocLambdaWrapper f)
                (alignofNonAllocLambdaWrapper f) dstBufSize dstBufAlignment
      in if r \<noteq> Returns () then (r, dstBuf)
         else copyInitWrapper_NonAlloc f dstBufSize dstBufAlignment dstBuf)"

text \<open>The same with \<open>allocating\<close> true; the target of \<open>dstBufPtr\<close> is returned updated.\<close>

fun copyTo_Alloc ::
  "config \<Rightarrow> ('a, 'r) LambdaBase \<Rightarrow> pointer \<Rightarrow> nat \<Rightarrow> nat \<Rightarrow> ('a, 'r) heap
     \<Rightarrow> (unit outcome \<times> pointer) \<times> ('a, 'r) heap" where
  "copyTo_Alloc cfg (NonAllocLambdaWrapperStub s a) dstBufPtr dstBufSize dstBufAlignment h =
     (let ((p, size1, alignment1), h1) =
             checkOrReallocate cfg (sizeofNonAllocLambdaWrapperStub cfg)
               (alignofNonAllocLambdaWrapperStub cfg) dstBufPtr dstBufSize dstBufAlignment h;
          (r, h2) = set_contents p (Object (AllocLambdaWrapperStub size1 alignment1)) h1
      in ((r, p), h2))"
| "copyTo_Alloc cfg (AllocLambdaWrapperStub s a) dstBufPtr dstBufSize dstBufAlignment h =
     (let ((p, size1, alignment1), h1) =
             checkOrReallocate cfg (sizeofAllocLambdaWrapperStub cfg)
               (alignofAllocLambdaWrapperStub cfg) dstBufPtr dstBufSize dstBufAlignment h;
          (r, h2) = set_contents p (Object (AllocLambdaWrapperStub size1 alignment1)) h1
      in ((r, p), h2))"
| "copyTo_Alloc cfg (NonAllocLambdaWrapper f) dstBufPtr dstBufSize dstBufAlignment h =
     (let ((p, size1, alignment1), h1) =
             checkOrReallocate cfg (sizeofAllocLambdaWrapper f)
               (alignofAllocLambdaWrapper f) dstBufPtr dstBufSize dstBufAlignment h;
          (r, h2) = copyInitWrapper_Alloc f size1 alignment1 p h1
      in ((r, p), h2))"
| "copyTo_Alloc cfg (AllocLambdaWrapper f s a) dstBufPtr dstBufSize dstBufAlignment h =
     (let ((p, size1, alignment1), h1) =
             checkOrReallocate cfg (sizeofAllocLambdaWrapper f)
               (alignofAllocLambdaWrapper f) dstBufPtr dstBufSize dstBufAlignment h;
          (r, h2) = copyInitWrapper_Alloc f size1 alignment1 p h1
      in ((r, p), h2))"

section \<open>Assigning a lambda by copy\<close>

text \<open>
  The local \<open>copyBuffer\<close> of \<open>copyAssignLambda\<close>, for \<open>Allocating\<close> false: \<open>buf1\<close> is the
  destination's inline buffer, \<open>buf2\<close> the storage the source record lives in.
\<close>

definition copyBuffer_NonAlloc ::
  "config \<Rightarrow> ('a, 'r) storage \<Rightarrow> ('a, 'r) storage \<Rightarrow> unit outcome \<times> ('a, 'r) storage" where
  "copyBuffer_NonAlloc cfg buf1 buf2 =
     (case buf1 of
        Raw \<Rightarrow> (Undefined, buf1)
      | Object l1Base \<Rightarrow>
          (let buf1Size = bufferSize cfg l1Base;
               buf1Alignment = bufferAlignment cfg l1Base;
               (r, b1) = destroy buf1
           in if r \<noteq> Returns () then (r, b1)
              else (case buf2 of
                      Raw \<Rightarrow> (Undefined, b1)
                    | Object l2Base \<Rightarrow> copyTo_NonAlloc cfg l2Base b1 buf1Size buf1Alignment)))"

text \<open>The same for \<open>Allocating\<close> true: \<open>buf1\<close> is the \<open>void **\<close> of the destination.\<close>

definition copyBuffer_Alloc ::
  "config \<Rightarrow> pointer \<Rightarrow> ('a, 'r) storage \<Rightarrow> ('a, 'r) heap
     \<Rightarrow> (unit outcome \<times> pointer \<times> unit) \<times> ('a, 'r) heap" where
  "copyBuffer_Alloc cfg buf1Ptr buf2 h =
     (case object_at h buf1Ptr of
        None \<Rightarrow> ((Undefined, buf1Ptr, ()), h)
      | Some l1Base \<Rightarrow>
          (let buf1Size = bufferSize cfg l1Base;
               buf1Alignment = bufferAlignment cfg l1Base;
               (r, h1) = destroy_at buf1Ptr h
           in if r \<noteq> Returns () then ((r, buf1Ptr, ()), h1)
              else (case buf2 of
                      Raw \<Rightarrow> ((Undefined, buf1Ptr, ()), h1)
                    | Object l2Base \<Rightarrow>
                        (let ((r2, p), h2) = copyTo_Alloc cfg l2Base buf1Ptr buf1Size buf1Alignment h1
                         in ((r2, p, ()), h2)))))"

text \<open>
  \<open>copyAssignLambda(l1, l2)\<close>, one definition for each branch of its \<open>if constexpr\<close>
  chain. The branch \<open>Lambda <- AllocLambda\<close> names \<open>l2.buf()\<close>, a member \<open>AllocLambda\<close>
  does not declare, so that instantiation does not compile and has no behaviour.
\<close>

definition copyAssignLambda_Lambda_Lambda ::
  "config \<Rightarrow> ('a, 'r) Lambda \<Rightarrow> ('a, 'r) Lambda \<Rightarrow> unit outcome \<times> ('a, 'r) Lambda" where
  "copyAssignLambda_Lambda_Lambda cfg l1 l2 = copyBuffer_NonAlloc cfg l1 l2"

definition copyAssignLambda_AllocLambda_AllocLambda ::
  "config \<Rightarrow> AllocLambda \<Rightarrow> AllocLambda \<Rightarrow> ('a, 'r) heap
     \<Rightarrow> (unit outcome \<times> AllocLambda) \<times> ('a, 'r) heap" where
  "copyAssignLambda_AllocLambda_AllocLambda cfg l1 l2 h = shared_ptr_assign cfg l1 l2 h"

definition copyAssignLambda_AllocLambda_Lambda ::
  "config \<Rightarrow> AllocLambda \<Rightarrow> ('a, 'r) Lambda \<Rightarrow> ('a, 'r) heap
     \<Rightarrow> (unit outcome \<times> AllocLambda \<times> unit) \<times> ('a, 'r) heap" where
  "copyAssignLambda_AllocLambda_Lambda cfg l1 l2 h =
     allocLambdaBufferOp cfg l1 (\<lambda>bufPtr h0. copyBuffer_Alloc cfg bufPtr l2 h0) h"

section \<open>Assigning a lambda by move\<close>

text \<open>
  The local \<open>moveBuffer\<close> of \<open>moveAssignLambda\<close>, once for each pair of \<open>Allocating\<close> (the
  kind of the destination) and \<open>IsAllocLambda<L2>\<close> (the kind of the source) it is called
  with. The results are the destination and the source as the call leaves them.
\<close>

definition moveBuffer_Lambda_Lambda ::
  "config \<Rightarrow> ('a, 'r) storage \<Rightarrow> ('a, 'r) storage
     \<Rightarrow> unit outcome \<times> ('a, 'r) storage \<times> ('a, 'r) storage" where
  "moveBuffer_Lambda_Lambda cfg buf1 buf2 =
     (case buf1 of
        Raw \<Rightarrow> (Undefined, buf1, buf2)
      | Object l1Base \<Rightarrow>
          (let buf1Size = bufferSize cfg l1Base;
               buf1Alignment = bufferAlignment cfg l1Base;
               (r, b1) = destroy buf1
           in if r \<noteq> Returns () then (r, b1, buf2)
              else (case buf2 of
                      Raw \<Rightarrow> (Undefined, b1, buf2)
                    | Object l2Base \<Rightarrow>
                        (let buf2Size = bufferSize cfg l2Base;
                             buf2Alignment = bufferAlignment cfg l2Base;
                             (r1, b1') = copyTo_NonAlloc cfg l2Base b1 buf1Size buf1Alignment
                         in if r1 \<noteq> Returns () then (r1, b1', buf2)
                            else (let (r2, b2) = destroy buf2
                                  in if r2 \<noteq> Returns () then (r2, b1', b2)
                                     else (let (r3, b2') =
                                                 initEmptyLambda_NonAlloc cfg b2 buf2Size buf2Alignment
                                           in (r3, b1', b2')))))))"

text \<open>
  Destination inline, source on the heap. \<open>initEmptyLambda\<close> receives the address of the
  local copy \<open>buf2\<close> of the source's raw pointer; a pointer it allocates is dropped with
  that local.
\<close>

definition moveBuffer_Lambda_AllocLambda ::
  "config \<Rightarrow> ('a, 'r) storage \<Rightarrow> pointer \<Rightarrow> ('a, 'r) heap
     \<Rightarrow> (unit outcome \<times> ('a, 'r) storage) \<times> ('a, 'r) heap" where
  "moveBuffer_Lambda_AllocLambda cfg buf1 buf2 h =
     (case buf1 of
        Raw \<Rightarrow> ((Undefined, buf1), h)
      | Object l1Base \<Rightarrow>
          (let buf1Size = bufferSize cfg l1Base;
               buf1Alignment = bufferAlignment cfg l1Base;
               (r, b1) = destroy buf1
           in if r \<noteq> Returns () then ((r, b1), h)
              else (case object_at h buf2 of
                      None \<Rightarrow> ((Undefined, b1), h)
                    | Some l2Base \<Rightarrow>
                        (let buf2Size = bufferSize cfg l2Base;
                             buf2Alignment = bufferAlignment cfg l2Base;
                             (r1, b1') = copyTo_NonAlloc cfg l2Base b1 buf1Size buf1Alignment
                         in if r1 \<noteq> Returns () then ((r1, b1'), h)
                            else (let (r2, h2) = destroy_at buf2 h
                                  in if r2 \<noteq> Returns () then ((r2, b1'), h2)
                                     else (let ((r3, buf2', u), h3) =
                                                 initEmptyLambda_Alloc cfg buf2 buf2Size buf2Alignment h2
                                           in ((r3, b1'), h3)))))))"

text \<open>Destination on the heap, source inline.\<close>

definition moveBuffer_AllocLambda_Lambda ::
  "config \<Rightarrow> pointer \<Rightarrow> ('a, 'r) storage \<Rightarrow> ('a, 'r) heap
     \<Rightarrow> (unit outcome \<times> pointer \<times> ('a, 'r) storage) \<times> ('a, 'r) heap" where
  "moveBuffer_AllocLambda_Lambda cfg buf1Ptr buf2 h =
     (case object_at h buf1Ptr of
        None \<Rightarrow> ((Undefined, buf1Ptr, buf2), h)
      | Some l1Base \<Rightarrow>
          (let buf1Size = bufferSize cfg l1Base;
               buf1Alignment = bufferAlignment cfg l1Base;
               (r, h1) = destroy_at buf1Ptr h
           in if r \<noteq> Returns () then ((r, buf1Ptr, buf2), h1)
              else (case buf2 of
                      Raw \<Rightarrow> ((Undefined, buf1Ptr, buf2), h1)
                    | Object l2Base \<Rightarrow>
                        (let buf2Size = bufferSize cfg l2Base;
                             buf2Alignment = bufferAlignment cfg l2Base;
                             ((r1, p), h2) = copyTo_Alloc cfg l2Base buf1Ptr buf1Size buf1Alignment h1
                         in if r1 \<noteq> Returns () then ((r1, p, buf2), h2)
                            else (let (r2, b2) = destroy buf2
                                  in if r2 \<noteq> Returns () then ((r2, p, b2), h2)
                                     else (let (r3, b2') =
                                                 initEmptyLambda_NonAlloc cfg b2 buf2Size buf2Alignment
                                           in ((r3, p, b2'), h2)))))))"

text \<open>\<open>moveAssignLambda(l1, l2)\<close>, one definition for each branch.\<close>

definition moveAssignLambda_Lambda_Lambda ::
  "config \<Rightarrow> ('a, 'r) Lambda \<Rightarrow> ('a, 'r) Lambda
     \<Rightarrow> unit outcome \<times> ('a, 'r) Lambda \<times> ('a, 'r) Lambda" where
  "moveAssignLambda_Lambda_Lambda cfg l1 l2 = moveBuffer_Lambda_Lambda cfg l1 l2"

definition moveAssignLambda_AllocLambda_AllocLambda ::
  "config \<Rightarrow> AllocLambda \<Rightarrow> AllocLambda \<Rightarrow> ('a, 'r) heap
     \<Rightarrow> (unit outcome \<times> AllocLambda \<times> AllocLambda) \<times> ('a, 'r) heap" where
  "moveAssignLambda_AllocLambda_AllocLambda cfg l1 l2 h =
     (let ((r1, l1'), h1) = shared_ptr_assign cfg l1 l2 h
      in if r1 \<noteq> Returns () then ((r1, l1', l2), h1)
         else (let ((r2, l2'), h2) = shared_ptr_reset cfg l2 h1
               in if r2 \<noteq> Returns () then ((r2, l1', l2'), h2)
                  else (let ((r3, l2'', u), h3) =
                              allocLambdaBufferOp cfg l2'
                                (\<lambda>bufPtr h0. initEmptyLambda_Alloc cfg bufPtr 0 0 h0) h2
                        in ((r3, l1', l2''), h3))))"

definition moveAssignLambda_Lambda_AllocLambda ::
  "config \<Rightarrow> ('a, 'r) Lambda \<Rightarrow> AllocLambda \<Rightarrow> ('a, 'r) heap
     \<Rightarrow> (unit outcome \<times> ('a, 'r) Lambda) \<times> ('a, 'r) heap" where
  "moveAssignLambda_Lambda_AllocLambda cfg l1 l2 h = moveBuffer_Lambda_AllocLambda cfg l1 l2 h"

definition moveAssignLambda_AllocLambda_Lambda ::
  "config \<Rightarrow> AllocLambda \<Rightarrow> ('a, 'r) Lambda \<Rightarrow> ('a, 'r) heap
     \<Rightarrow> (unit outcome \<times> AllocLambda \<times> ('a, 'r) Lambda) \<times> ('a, 'r) heap" where
  "moveAssignLambda_AllocLambda_Lambda cfg l1 l2 h =
     allocLambdaBufferOp cfg l1 (\<lambda>bufPtr h0. moveBuffer_AllocLambda_Lambda cfg bufPtr l2 h0) h"

section \<open>The public types\<close>

text \<open>\<open>Lambda()\<close>: the buffer of a new object holds no record yet.\<close>

definition Lambda_default :: "config \<Rightarrow> unit outcome \<times> ('a, 'r) Lambda" where
  "Lambda_default cfg =
     initEmptyLambda_NonAlloc cfg Raw (CX_LAMBDA_BUF_SIZE cfg) (CX_LAMBDA_BUF_ALIGN cfg)"

text \<open>
  \<open>Lambda(F const &)\<close> for \<open>Copy\<close> true and \<open>Lambda(F &&)\<close> for \<open>Copy\<close> false: the default
  constructor, then \<open>operator=\<close>.
\<close>

definition Lambda_from_Functor ::
  "config \<Rightarrow> bool \<Rightarrow> ('a, 'r) Functor \<Rightarrow> unit outcome \<times> ('a, 'r) Lambda" where
  "Lambda_from_Functor cfg Copy f =
     (let (r, l) = Lambda_default cfg
      in if r \<noteq> Returns () then (r, l)
         else if Copy then copyAssignFunction_Lambda cfg l f
         else moveAssignFunction_Lambda cfg l f)"

text \<open>
  \<open>operator()\<close> of the four specialisations: \<open>op\<close>, \<open>noexceptOp\<close> from a \<open>noexcept\<close>
  operator, \<open>op<false>\<close> and \<open>op<true>\<close>.
\<close>

definition Lambda_call :: "Prototype \<Rightarrow> ('a, 'r) Lambda \<Rightarrow> 'a \<Rightarrow> 'r outcome" where
  "Lambda_call p l args =
     (case l of
        Raw \<Rightarrow> Undefined
      | Object w \<Rightarrow>
          if \<not> cVariadic p \<and> \<not> noexceptQualified p then op w args
          else if \<not> cVariadic p then noexcept (noexceptOp w args)
          else if \<not> noexceptQualified p then op_variadic False w args
          else op_variadic True w args)"

definition Lambda_bool :: "('a, 'r) Lambda \<Rightarrow> bool outcome" where
  "Lambda_bool l = (case l of Raw \<Rightarrow> Undefined | Object w \<Rightarrow> Returns (present w))"

text \<open>
  \<open>AllocLambda\<close> is defined for the prototype \<open>R (Args...)\<close> only; its three other
  specialisations are empty structs.
\<close>

definition AllocLambda_default ::
  "config \<Rightarrow> ('a, 'r) heap \<Rightarrow> (unit outcome \<times> AllocLambda \<times> unit) \<times> ('a, 'r) heap" where
  "AllocLambda_default cfg h =
     allocLambdaBufferOp cfg None (\<lambda>bufPtr h0. initEmptyLambda_Alloc cfg bufPtr 0 0 h0) h"

definition AllocLambda_from_Functor ::
  "config \<Rightarrow> bool \<Rightarrow> ('a, 'r) Functor \<Rightarrow> ('a, 'r) heap
     \<Rightarrow> (unit outcome \<times> AllocLambda \<times> unit) \<times> ('a, 'r) heap" where
  "AllocLambda_from_Functor cfg Copy f h =
     (let ((r, l, u), h1) = AllocLambda_default cfg h
      in if r \<noteq> Returns () then ((r, l, u), h1)
         else if Copy then copyAssignFunction_AllocLambda cfg l f h1
         else moveAssignFunction_AllocLambda cfg l f h1)"

definition AllocLambda_call :: "AllocLambda \<Rightarrow> 'a \<Rightarrow> ('a, 'r) heap \<Rightarrow> 'r outcome" where
  "AllocLambda_call l args h =
     (case object_at h l of None \<Rightarrow> Undefined | Some w \<Rightarrow> op w args)"

definition AllocLambda_bool :: "AllocLambda \<Rightarrow> ('a, 'r) heap \<Rightarrow> bool outcome" where
  "AllocLambda_bool l h =
     (case object_at h l of None \<Rightarrow> Undefined | Some w \<Rightarrow> Returns (present w))"

section \<open>Vocabulary for the properties\<close>

text \<open>Whether an outcome is an \<open>IncompatibleLambdaError\<close>, with either message.\<close>

fun isIncompatibleLambdaError :: "'v outcome \<Rightarrow> bool" where
  "isIncompatibleLambdaError (Throws (IncompatibleLambdaError m)) = True"
| "isIncompatibleLambdaError r = False"

text \<open>
  What \<open>copyTo\<close> with \<open>allocating\<close> false checks and constructs, read off its four
  overrides: the size and alignment it passes to \<open>wrapperBufferCheck\<close>, and the record it
  constructs in a destination of the given size and alignment.
\<close>

fun relocatedSize :: "config \<Rightarrow> ('a, 'r) LambdaBase \<Rightarrow> nat" where
  "relocatedSize cfg (NonAllocLambdaWrapperStub s a) = sizeofNonAllocLambdaWrapperStub cfg"
| "relocatedSize cfg (AllocLambdaWrapperStub s a) = sizeofNonAllocLambdaWrapperStub cfg"
| "relocatedSize cfg (NonAllocLambdaWrapper f) = sizeofNonAllocLambdaWrapper f"
| "relocatedSize cfg (AllocLambdaWrapper f s a) = sizeofNonAllocLambdaWrapper f"

fun relocatedAlignment :: "config \<Rightarrow> ('a, 'r) LambdaBase \<Rightarrow> nat" where
  "relocatedAlignment cfg (NonAllocLambdaWrapperStub s a) = alignofNonAllocLambdaWrapperStub cfg"
| "relocatedAlignment cfg (AllocLambdaWrapperStub s a) = alignofNonAllocLambdaWrapperStub cfg"
| "relocatedAlignment cfg (NonAllocLambdaWrapper f) = alignofNonAllocLambdaWrapper f"
| "relocatedAlignment cfg (AllocLambdaWrapper f s a) = alignofNonAllocLambdaWrapper f"

fun relocated :: "('a, 'r) LambdaBase \<Rightarrow> nat \<Rightarrow> nat \<Rightarrow> ('a, 'r) LambdaBase" where
  "relocated (NonAllocLambdaWrapperStub s a) ds da = NonAllocLambdaWrapperStub ds da"
| "relocated (AllocLambdaWrapperStub s a) ds da = NonAllocLambdaWrapperStub ds da"
| "relocated (NonAllocLambdaWrapper f) ds da = NonAllocLambdaWrapper f"
| "relocated (AllocLambdaWrapper f s a) ds da = NonAllocLambdaWrapper f"

text \<open>The same for \<open>allocating\<close> true: the arguments of \<open>checkOrReallocate\<close> and the record.\<close>

fun allocRelocatedSize :: "config \<Rightarrow> ('a, 'r) LambdaBase \<Rightarrow> nat" where
  "allocRelocatedSize cfg (NonAllocLambdaWrapperStub s a) = sizeofNonAllocLambdaWrapperStub cfg"
| "allocRelocatedSize cfg (AllocLambdaWrapperStub s a) = sizeofAllocLambdaWrapperStub cfg"
| "allocRelocatedSize cfg (NonAllocLambdaWrapper f) = sizeofAllocLambdaWrapper f"
| "allocRelocatedSize cfg (AllocLambdaWrapper f s a) = sizeofAllocLambdaWrapper f"

fun allocRelocatedAlignment :: "config \<Rightarrow> ('a, 'r) LambdaBase \<Rightarrow> nat" where
  "allocRelocatedAlignment cfg (NonAllocLambdaWrapperStub s a) = alignofNonAllocLambdaWrapperStub cfg"
| "allocRelocatedAlignment cfg (AllocLambdaWrapperStub s a) = alignofAllocLambdaWrapperStub cfg"
| "allocRelocatedAlignment cfg (NonAllocLambdaWrapper f) = alignofAllocLambdaWrapper f"
| "allocRelocatedAlignment cfg (AllocLambdaWrapper f s a) = alignofAllocLambdaWrapper f"

fun allocRelocated :: "('a, 'r) LambdaBase \<Rightarrow> nat \<Rightarrow> nat \<Rightarrow> ('a, 'r) LambdaBase" where
  "allocRelocated (NonAllocLambdaWrapperStub s a) ds da = AllocLambdaWrapperStub ds da"
| "allocRelocated (AllocLambdaWrapperStub s a) ds da = AllocLambdaWrapperStub ds da"
| "allocRelocated (NonAllocLambdaWrapper f) ds da = AllocLambdaWrapper f ds da"
| "allocRelocated (AllocLambdaWrapper f s a) ds da = AllocLambdaWrapper f ds da"

text \<open>
  The size and alignment of the first allocation of an empty \<open>AllocLambda\<close>:
  \<open>checkOrReallocate<AllocLambdaWrapperStub>\<close> called with size and alignment zero.
\<close>

definition firstSize :: "config \<Rightarrow> nat" where
  "firstSize cfg = max (CX_LAMBDA_BUF_SIZE cfg) (sizeofAllocLambdaWrapperStub cfg)"

definition firstAlignment :: "config \<Rightarrow> nat" where
  "firstAlignment cfg = max (CX_LAMBDA_BUF_ALIGN cfg) (alignofAllocLambdaWrapperStub cfg)"

section \<open>Concrete instances\<close>

text \<open>
  The default configuration on a 64-bit target: both macros are \<open>sizeof(void *) * 8\<close>,
  and a stub is a vtable pointer followed by two \<open>size_t\<close> members.
\<close>

definition cfg64 :: config where
  "cfg64 =
     \<lparr>CX_LAMBDA_BUF_SIZE = 64, CX_LAMBDA_BUF_ALIGN = 64,
      sizeofNonAllocLambdaWrapperStub = 24, alignofNonAllocLambdaWrapperStub = 8,
      sizeofAllocLambdaWrapperStub = 24, alignofAllocLambdaWrapperStub = 8\<rparr>"

definition emptyHeap :: "(nat, nat) heap" where
  "emptyHeap = \<lparr>blocks = Map.empty, fresh = 1\<rparr>"

text \<open>
  The types \<open>int\<close>, \<open>int (int)\<close>, \<open>int (int) noexcept\<close> and \<open>int (int, ...) noexcept\<close>.
\<close>

definition int_t :: cxtype where
  "int_t = OtherType 0"

definition int_of_int :: cxtype where
  "int_of_int = FunctionType int_t [int_t] False False"

definition int_of_int_noexcept :: cxtype where
  "int_of_int_noexcept = FunctionType int_t [int_t] False True"

definition int_of_int_variadic_noexcept :: cxtype where
  "int_of_int_variadic_noexcept = FunctionType int_t [int_t] True True"

text \<open>
  Two small function objects \<open>int (int)\<close>, each an object of one machine word: the
  inline wrapper adds the vtable pointer, the heap wrapper the two \<open>size_t\<close> members as
  well.
\<close>

definition addOne :: "(nat, nat) Functor" where
  "addOne =
     \<lparr>body = (\<lambda>x. Returns (x + 1)), isNoexcept = False, isVariadic = False, isStruct = True,
      sizeofNonAllocLambdaWrapper = 16, alignofNonAllocLambdaWrapper = 8,
      sizeofAllocLambdaWrapper = 32, alignofAllocLambdaWrapper = 8\<rparr>"

definition timesTwo :: "(nat, nat) Functor" where
  "timesTwo =
     \<lparr>body = (\<lambda>x. Returns (2 * x)), isNoexcept = False, isVariadic = False, isStruct = True,
      sizeofNonAllocLambdaWrapper = 16, alignofNonAllocLambdaWrapper = 8,
      sizeofAllocLambdaWrapper = 32, alignofAllocLambdaWrapper = 8\<rparr>"

text \<open>
  A function object whose inline wrapper fills the 64 bytes of the inline buffer exactly,
  and one whose inline wrapper is one byte larger.
\<close>

definition fills :: "(nat, nat) Functor" where
  "fills =
     \<lparr>body = (\<lambda>x. Returns (x + 7)), isNoexcept = False, isVariadic = False, isStruct = True,
      sizeofNonAllocLambdaWrapper = 64, alignofNonAllocLambdaWrapper = 8,
      sizeofAllocLambdaWrapper = 80, alignofAllocLambdaWrapper = 8\<rparr>"

definition overflows :: "(nat, nat) Functor" where
  "overflows =
     \<lparr>body = (\<lambda>x. Returns (x + 9)), isNoexcept = False, isVariadic = False, isStruct = True,
      sizeofNonAllocLambdaWrapper = 65, alignofNonAllocLambdaWrapper = 8,
      sizeofAllocLambdaWrapper = 81, alignofAllocLambdaWrapper = 8\<rparr>"





text \<open>
  The prototypes \<open>R (Args...)\<close>, \<open>R (Args...) noexcept\<close>, \<open>R (Args..., ...)\<close> and
  \<open>R (Args..., ...) noexcept\<close>.
\<close>

definition unqualified :: Prototype where
  "unqualified = \<lparr>cVariadic = False, noexceptQualified = False\<rparr>"

definition nonThrowing :: Prototype where
  "nonThrowing = \<lparr>cVariadic = False, noexceptQualified = True\<rparr>"



text \<open>
  Inline lambdas: an empty one, one holding \<open>addOne\<close>, and a record of a wrapper that
  is one byte too large for the inline buffer.
\<close>

definition emptyStub :: "(nat, nat) Lambda" where
  "emptyStub = Object (NonAllocLambdaWrapperStub 64 64)"

definition holdsAddOne :: "(nat, nat) Lambda" where
  "holdsAddOne = Object (NonAllocLambdaWrapper addOne)"

definition holdsOverflows :: "(nat, nat) Lambda" where
  "holdsOverflows = Object (NonAllocLambdaWrapper overflows)"


definition heapXY :: "(nat, nat) heap" where
  "heapXY =
     \<lparr>blocks = Map.empty
        (1 \<mapsto> \<lparr>contents = Object (AllocLambdaWrapper addOne 64 64), useCount = 1,
                allocSize = 64, allocAlignment = 64\<rparr>,
         2 \<mapsto> \<lparr>contents = Object (AllocLambdaWrapperStub 64 64), useCount = 1,
                allocSize = 64, allocAlignment = 64\<rparr>),
      fresh = 3\<rparr>"

definition heapMoved :: "(nat, nat) heap" where
  "heapMoved =
     \<lparr>blocks = Map.empty
        (1 \<mapsto> \<lparr>contents = Object (AllocLambdaWrapper addOne 64 64), useCount = 1,
                allocSize = 64, allocAlignment = 64\<rparr>,
         3 \<mapsto> \<lparr>contents = Object (AllocLambdaWrapperStub 64 64), useCount = 1,
                allocSize = 64, allocAlignment = 64\<rparr>),
      fresh = 4\<rparr>"

definition heapYX :: "(nat, nat) heap" where
  "heapYX =
     \<lparr>blocks = Map.empty
        (1 \<mapsto> \<lparr>contents = Object (AllocLambdaWrapper addOne 64 64), useCount = 1,
                allocSize = 64, allocAlignment = 64\<rparr>,
         2 \<mapsto> \<lparr>contents = Object (AllocLambdaWrapper addOne 64 64), useCount = 1,
                allocSize = 64, allocAlignment = 64\<rparr>),
      fresh = 3\<rparr>"

definition heapDrained :: "(nat, nat) heap" where
  "heapDrained =
     \<lparr>blocks = Map.empty
        (1 \<mapsto> \<lparr>contents = Object (AllocLambdaWrapperStub 64 64), useCount = 1,
                allocSize = 64, allocAlignment = 64\<rparr>,
         2 \<mapsto> \<lparr>contents = Object (AllocLambdaWrapperStub 64 64), useCount = 1,
                allocSize = 64, allocAlignment = 64\<rparr>),
      fresh = 3\<rparr>"

definition heapBig :: "(nat, nat) heap" where
  "heapBig =
     \<lparr>blocks = Map.empty
        (1 \<mapsto> \<lparr>contents = Object (AllocLambdaWrapper overflows 81 8), useCount = 1,
                allocSize = 81, allocAlignment = 8\<rparr>),
      fresh = 2\<rparr>"

section \<open>The growth policy of heap buffers\<close>

lemma checkOrReallocate_first:
  "checkOrReallocate cfg wS wA buffer 0 0 h =
     ((Some (fresh h), max (CX_LAMBDA_BUF_SIZE cfg) wS, max (CX_LAMBDA_BUF_ALIGN cfg) wA),
      h\<lparr>blocks := (blocks h)(fresh h \<mapsto>
           \<lparr>contents = Raw, useCount = 0,
            allocSize = max (CX_LAMBDA_BUF_SIZE cfg) wS,
            allocAlignment = max (CX_LAMBDA_BUF_ALIGN cfg) wA\<rparr>),
        fresh := Suc (fresh h)\<rparr>)"
  by (simp add: checkOrReallocate_def operator_new_def Let_def)

lemma checkOrReallocate_grow:
  assumes "\<not> (size0 = 0 \<and> alignment = 0)" and "size0 < wS \<or> alignment < wA"
  shows "checkOrReallocate cfg wS wA buffer size0 alignment h =
     ((Some (fresh h), wS, wA),
      h\<lparr>blocks := (blocks h)(fresh h \<mapsto>
           \<lparr>contents = Raw, useCount = 0, allocSize = wS, allocAlignment = wA\<rparr>),
        fresh := Suc (fresh h)\<rparr>)"
  using assms by (auto simp add: checkOrReallocate_def operator_new_def Let_def)

lemma checkOrReallocate_keep:
  assumes "\<not> (size0 = 0 \<and> alignment = 0)" and "wS \<le> size0" and "wA \<le> alignment"
  shows "checkOrReallocate cfg wS wA buffer size0 alignment h = ((buffer, size0, alignment), h)"
  using assms by (auto simp add: checkOrReallocate_def)

text \<open>
  C8. \<open>checkOrReallocate\<close> for a wrapper of size \<open>wS\<close> and alignment \<open>wA\<close>: when the
  current size and alignment are both zero, a new block of size
  \<open>max CX_LAMBDA_BUF_SIZE wS\<close> and alignment \<open>max CX_LAMBDA_BUF_ALIGN wA\<close> is allocated
  and reported; otherwise, when the size is below \<open>wS\<close> or the alignment below \<open>wA\<close>, a
  new block of exactly size \<open>wS\<close> and alignment \<open>wA\<close> is allocated and reported;
  otherwise pointer, size, alignment and heap are unchanged.
\<close>

theorem checkOrReallocate_policy:
  "(size0 = 0 \<and> alignment = 0 \<longrightarrow>
      checkOrReallocate cfg wS wA buffer size0 alignment h =
        ((Some (fresh h), max (CX_LAMBDA_BUF_SIZE cfg) wS, max (CX_LAMBDA_BUF_ALIGN cfg) wA),
         h\<lparr>blocks := (blocks h)(fresh h \<mapsto>
              \<lparr>contents = Raw, useCount = 0,
               allocSize = max (CX_LAMBDA_BUF_SIZE cfg) wS,
               allocAlignment = max (CX_LAMBDA_BUF_ALIGN cfg) wA\<rparr>),
           fresh := Suc (fresh h)\<rparr>))
   \<and> (\<not> (size0 = 0 \<and> alignment = 0) \<and> (size0 < wS \<or> alignment < wA) \<longrightarrow>
      checkOrReallocate cfg wS wA buffer size0 alignment h =
        ((Some (fresh h), wS, wA),
         h\<lparr>blocks := (blocks h)(fresh h \<mapsto>
              \<lparr>contents = Raw, useCount = 0, allocSize = wS, allocAlignment = wA\<rparr>),
           fresh := Suc (fresh h)\<rparr>))
   \<and> (\<not> (size0 = 0 \<and> alignment = 0) \<and> wS \<le> size0 \<and> wA \<le> alignment \<longrightarrow>
      checkOrReallocate cfg wS wA buffer size0 alignment h = ((buffer, size0, alignment), h))"
proof (intro conjI impI)
  assume "size0 = 0 \<and> alignment = 0"
  then show "checkOrReallocate cfg wS wA buffer size0 alignment h =
        ((Some (fresh h), max (CX_LAMBDA_BUF_SIZE cfg) wS, max (CX_LAMBDA_BUF_ALIGN cfg) wA),
         h\<lparr>blocks := (blocks h)(fresh h \<mapsto>
              \<lparr>contents = Raw, useCount = 0,
               allocSize = max (CX_LAMBDA_BUF_SIZE cfg) wS,
               allocAlignment = max (CX_LAMBDA_BUF_ALIGN cfg) wA\<rparr>),
           fresh := Suc (fresh h)\<rparr>)"
    by (simp add: checkOrReallocate_first)
next
  assume "\<not> (size0 = 0 \<and> alignment = 0) \<and> (size0 < wS \<or> alignment < wA)"
  then show "checkOrReallocate cfg wS wA buffer size0 alignment h =
        ((Some (fresh h), wS, wA),
         h\<lparr>blocks := (blocks h)(fresh h \<mapsto>
              \<lparr>contents = Raw, useCount = 0, allocSize = wS, allocAlignment = wA\<rparr>),
           fresh := Suc (fresh h)\<rparr>)"
    by (intro checkOrReallocate_grow) simp_all
next
  assume "\<not> (size0 = 0 \<and> alignment = 0) \<and> wS \<le> size0 \<and> wA \<le> alignment"
  then show "checkOrReallocate cfg wS wA buffer size0 alignment h = ((buffer, size0, alignment), h)"
    by (intro checkOrReallocate_keep) simp_all
qed

theorem checkOrReallocate_policy_witness:
  "fst (checkOrReallocate cfg64 32 8 None 0 0 emptyHeap) = (Some 1, 64, 64)
   \<and> fst (checkOrReallocate cfg64 128 8 (Some 2) 64 64 heapXY) = (Some 3, 128, 8)
   \<and> checkOrReallocate cfg64 32 8 (Some 2) 64 64 heapXY = ((Some 2, 64, 64), heapXY)"
  using checkOrReallocate_policy [of 0 0 cfg64 32 8 None emptyHeap]
    checkOrReallocate_policy [of 64 64 cfg64 128 8 "Some 2" heapXY]
    checkOrReallocate_policy [of 64 64 cfg64 32 8 "Some 2" heapXY]
  by (simp add: cfg64_def emptyHeap_def heapXY_def)

text \<open>
  C9, as stated, fails: the buffer of the empty \<open>AllocLambda\<close> of \<open>heapXY\<close>, which
  reports capacity 64 and alignment 64, checked for a wrapper of size 128 and alignment 8
  is replaced by one of capacity 128 and alignment 8.
\<close>

theorem checkOrReallocate_alignment_shrinks:
  "(case checkOrReallocate cfg64 128 8 (Some 2) 64 64 heapXY of
      ((p, capacity, alignment), h) \<Rightarrow>
        p = Some 3 \<and> capacity = 128 \<and> alignment = 8 \<and> alignment < 64)"
  by (simp add: checkOrReallocate_def operator_new_def cfg64_def heapXY_def)

text \<open>
  C9, amended. After \<open>checkOrReallocate\<close> the reported capacity and alignment satisfy the
  wrapper; a dimension that was insufficient has strictly grown; a buffer that already
  satisfied the wrapper (and is not the initial zero-sized one) is left as it was. A
  dimension that was sufficient while the other was not is not preserved.
\<close>

theorem checkOrReallocate_grows_what_was_short:
  assumes "checkOrReallocate cfg wS wA buffer size0 alignment h = ((p, size1, alignment1), h1)"
  shows "wS \<le> size1 \<and> wA \<le> alignment1
     \<and> (size0 < wS \<longrightarrow> size0 < size1)
     \<and> (alignment < wA \<longrightarrow> alignment < alignment1)
     \<and> (\<not> (size0 = 0 \<and> alignment = 0) \<and> wS \<le> size0 \<and> wA \<le> alignment \<longrightarrow>
          p = buffer \<and> size1 = size0 \<and> alignment1 = alignment \<and> h1 = h)"
  using assms
  by (auto simp add: checkOrReallocate_def operator_new_def Let_def split: if_splits)

theorem checkOrReallocate_grows_what_was_short_witness:
  "fst (checkOrReallocate cfg64 128 8 (Some 2) 64 64 heapXY) = (Some 3, 128, 8)
   \<and> (128::nat) \<le> 128 \<and> (8::nat) \<le> 8 \<and> (64::nat) < 128"
proof -
  obtain h1 where run: "checkOrReallocate cfg64 128 8 (Some 2) 64 64 heapXY = ((Some 3, 128, 8), h1)"
    by (simp add: checkOrReallocate_def operator_new_def cfg64_def heapXY_def)
  from checkOrReallocate_grows_what_was_short [OF run] run show ?thesis by simp
qed

section \<open>The compatibility predicate\<close>

lemma CompatibleLambda_iff:
  "CompatibleLambda (Instance Ls Ps) (Instance Ld Pd) =
     (IsLambdaTemplate Ls \<and> IsLambdaTemplate Ld
      \<and> (Ps = Pd \<or> (NoexceptFunction Ps \<and> \<not> NoexceptFunction Pd)))"
  by (auto simp add: CompatibleLambda_def)

text \<open>
  The predicate admits the widening of \<open>noexcept\<close> and not its reverse: for lambda types
  with the same return type, parameter types and variadic flag, a \<open>noexcept\<close> source is
  compatible with an unqualified destination and an unqualified source is not compatible
  with a \<open>noexcept\<close> destination. The converting constructors of a destination that
  declares members follow the predicate.
\<close>

lemma CompatibleLambda_widening:
  assumes "IsLambdaTemplate Ls" and "IsLambdaTemplate Ld"
  shows "CompatibleLambda (Instance Ls (FunctionType R Args v True))
           (Instance Ld (FunctionType R Args v False))
     \<and> \<not> CompatibleLambda (Instance Ls (FunctionType R Args v False))
           (Instance Ld (FunctionType R Args v True))"
  using assms by (simp add: CompatibleLambda_def)

lemma convertingConstructor_widening:
  assumes "IsLambdaTemplate Ls"
  shows "convertingConstructor (Instance Lambda (FunctionType R Args v False))
           (Instance Ls (FunctionType R Args v True))
     \<and> convertingConstructor (Instance AllocLambda (FunctionType R Args False False))
           (Instance Ls (FunctionType R Args False True))
     \<and> \<not> convertingConstructor (Instance Ld (FunctionType R Args v True))
           (Instance Ls (FunctionType R Args v False))"
  using assms
  by (simp add: CompatibleLambda_def convertingConstructor_def IsLambdaTemplate_def)

text \<open>
  The three empty specialisations of \<open>AllocLambda\<close> have no converting constructor and
  no conversion operator, whatever the other type.
\<close>

lemma empty_specialisation_declares_nothing:
  assumes "v \<or> ne"
  shows "\<not> convertingConstructor (Instance AllocLambda (FunctionType R Args v ne)) L
     \<and> \<not> conversionOperator (Instance AllocLambda (FunctionType R Args v ne)) L"
  using assms by (auto simp add: convertingConstructor_def conversionOperator_def)

text \<open>
  The conversion operator's constraint points the other way: an unqualified lambda
  declares the operator towards the \<open>noexcept\<close> lambda of the same prototype, and a
  \<open>noexcept\<close> lambda does not declare it towards the unqualified one.
\<close>

lemma conversionOperator_direction:
  assumes "IsLambdaTemplate Ld"
  shows "conversionOperator (Instance Lambda (FunctionType R Args v False))
           (Instance Ld (FunctionType R Args v True))
     \<and> conversionOperator (Instance AllocLambda (FunctionType R Args False False))
           (Instance Ld (FunctionType R Args False True))
     \<and> \<not> conversionOperator (Instance Ls (FunctionType R Args v True))
           (Instance Ld (FunctionType R Args v False))"
  using assms
  by (simp add: CompatibleLambda_def conversionOperator_def IsLambdaTemplate_def)

text \<open>
  C4 does not hold of the code in its second half. For the source \<open>Lambda<int (int)>\<close>
  and the destination \<open>Lambda<int (int) noexcept>\<close> the pair is not compatible and no
  converting constructor of the destination accepts the source, as the claim says, and
  the widening pair is accepted; but the source declares its explicit conversion operator
  towards the destination, so that the initialisation \<open>Lambda<int (int) noexcept> n{t}\<close>
  is accepted through it instead of rejected. The operator's body is \<open>L{*this}\<close>, the same
  initialisation again.
\<close>

theorem reverse_conversion_is_declared:
  "CompatibleLambda (Instance Lambda int_of_int_noexcept) (Instance Lambda int_of_int)
   \<and> convertingConstructor (Instance Lambda int_of_int) (Instance Lambda int_of_int_noexcept)
   \<and> \<not> CompatibleLambda (Instance Lambda int_of_int) (Instance Lambda int_of_int_noexcept)
   \<and> \<not> convertingConstructor (Instance Lambda int_of_int_noexcept) (Instance Lambda int_of_int)
   \<and> conversionOperator (Instance Lambda int_of_int) (Instance Lambda int_of_int_noexcept)"
  by (simp add: CompatibleLambda_def convertingConstructor_def conversionOperator_def
      IsLambdaTemplate_def int_of_int_def int_of_int_noexcept_def)

text \<open>
  C5 does not hold of the code: the source \<open>Lambda<int (int, ...) noexcept>\<close> is accepted
  for the destination \<open>Lambda<int (int)>\<close>, a c-variadic prototype for a fixed-arity one.
  The widening specialisation tests the two \<open>noexcept\<close> qualifiers and nothing else.
\<close>

theorem variadic_noexcept_source_accepted:
  "CompatibleLambda (Instance Lambda int_of_int_variadic_noexcept) (Instance Lambda int_of_int)
   \<and> int_of_int_variadic_noexcept \<noteq> int_of_int"
  by (simp add: CompatibleLambda_def IsLambdaTemplate_def int_of_int_def
      int_of_int_variadic_noexcept_def)

section \<open>What the operations on an inline buffer compute\<close>

lemma wrapperBufferCheck_cases:
  "wrapperBufferCheck s a ds da =
     (if ds < s then Throws (IncompatibleLambdaError BufferTooSmall)
      else if da < a then Throws (IncompatibleLambdaError BufferMisaligned)
      else Returns ())"
  by (simp add: wrapperBufferCheck_def)

lemma copyInitWrapper_NonAlloc_eq:
  "copyInitWrapper_NonAlloc f ds da buf =
     (if ds < sizeofNonAllocLambdaWrapper f then (Throws (IncompatibleLambdaError BufferTooSmall), buf)
      else if da < alignofNonAllocLambdaWrapper f then (Throws (IncompatibleLambdaError BufferMisaligned), buf)
      else (Returns (), Object (NonAllocLambdaWrapper f)))"
  by (simp add: copyInitWrapper_NonAlloc_def wrapperBufferCheck_def)

lemma moveInitWrapper_NonAlloc_eq:
  "moveInitWrapper_NonAlloc f ds da buf = copyInitWrapper_NonAlloc f ds da buf"
  by (simp add: copyInitWrapper_NonAlloc_def moveInitWrapper_NonAlloc_def)

lemma assignFunctionCommon_Lambda_eq:
  "assignFunctionCommon_Lambda cfg Copy (Object w) f =
     (if bufferSize cfg w < sizeofNonAllocLambdaWrapper f
      then (Throws (IncompatibleLambdaError BufferTooSmall), Raw)
      else if bufferAlignment cfg w < alignofNonAllocLambdaWrapper f
      then (Throws (IncompatibleLambdaError BufferMisaligned), Raw)
      else (Returns (), Object (NonAllocLambdaWrapper f)))"
  by (simp add: assignFunctionCommon_Lambda_def destroy_def Let_def moveInitWrapper_NonAlloc_eq
      copyInitWrapper_NonAlloc_eq)

lemma copyTo_NonAlloc_eq:
  "copyTo_NonAlloc cfg w buf ds da =
     (if ds < relocatedSize cfg w then (Throws (IncompatibleLambdaError BufferTooSmall), buf)
      else if da < relocatedAlignment cfg w then (Throws (IncompatibleLambdaError BufferMisaligned), buf)
      else (Returns (), Object (relocated w ds da)))"
  by (cases w) (simp_all add: wrapperBufferCheck_def copyInitWrapper_NonAlloc_eq)

lemma copyBuffer_NonAlloc_eq:
  "copyBuffer_NonAlloc cfg (Object w1) (Object w2) =
     (if bufferSize cfg w1 < relocatedSize cfg w2 then (Throws (IncompatibleLambdaError BufferTooSmall), Raw)
      else if bufferAlignment cfg w1 < relocatedAlignment cfg w2 then (Throws (IncompatibleLambdaError BufferMisaligned), Raw)
      else (Returns (), Object (relocated w2 (bufferSize cfg w1) (bufferAlignment cfg w1))))"
  by (simp add: copyBuffer_NonAlloc_def destroy_def Let_def copyTo_NonAlloc_eq)

lemma initEmptyLambda_NonAlloc_eq:
  "initEmptyLambda_NonAlloc cfg buf s a =
     (if s < sizeofNonAllocLambdaWrapperStub cfg then (Throws (IncompatibleLambdaError BufferTooSmall), buf)
      else if a < alignofNonAllocLambdaWrapperStub cfg then (Throws (IncompatibleLambdaError BufferMisaligned), buf)
      else (Returns (), Object (NonAllocLambdaWrapperStub s a)))"
  by (simp add: initEmptyLambda_NonAlloc_def wrapperBufferCheck_def)

lemma moveBuffer_Lambda_Lambda_eq:
  "moveBuffer_Lambda_Lambda cfg (Object w1) (Object w2) =
     (if bufferSize cfg w1 < relocatedSize cfg w2
      then (Throws (IncompatibleLambdaError BufferTooSmall), Raw, Object w2)
      else if bufferAlignment cfg w1 < relocatedAlignment cfg w2
      then (Throws (IncompatibleLambdaError BufferMisaligned), Raw, Object w2)
      else if bufferSize cfg w2 < sizeofNonAllocLambdaWrapperStub cfg
      then (Throws (IncompatibleLambdaError BufferTooSmall),
            Object (relocated w2 (bufferSize cfg w1) (bufferAlignment cfg w1)), Raw)
      else if bufferAlignment cfg w2 < alignofNonAllocLambdaWrapperStub cfg
      then (Throws (IncompatibleLambdaError BufferMisaligned),
            Object (relocated w2 (bufferSize cfg w1) (bufferAlignment cfg w1)), Raw)
      else (Returns (), Object (relocated w2 (bufferSize cfg w1) (bufferAlignment cfg w1)),
            Object (NonAllocLambdaWrapperStub (bufferSize cfg w2) (bufferAlignment cfg w2))))"
  by (simp add: moveBuffer_Lambda_Lambda_def destroy_def Let_def copyTo_NonAlloc_eq
      initEmptyLambda_NonAlloc_eq)


section \<open>What the operations on a heap buffer compute\<close>

lemma set_contents_Some:
  "blocks h a = Some b \<Longrightarrow>
   set_contents (Some a) c h = (Returns (), h\<lparr>blocks := (blocks h)(a \<mapsto> b\<lparr>contents := c\<rparr>)\<rparr>)"
  by (simp add: set_contents_def)

lemma AllocLambda_default_eq:
  "AllocLambda_default cfg h =
     ((Returns (), Some (fresh h), ()),
      h\<lparr>blocks := (blocks h)(fresh h \<mapsto>
           \<lparr>contents = Object (AllocLambdaWrapperStub (firstSize cfg) (firstAlignment cfg)),
            useCount = 1, allocSize = firstSize cfg, allocAlignment = firstAlignment cfg\<rparr>),
        fresh := Suc (fresh h)\<rparr>)"
  by (simp add: AllocLambda_default_def allocLambdaBufferOp_def initEmptyLambda_Alloc_def
      checkOrReallocate_first set_contents_def shared_ptr_reset_to_def release_def acquire_def
      firstSize_def firstAlignment_def)

lemma assignFunctionCommon_AllocLambda_fits:
  assumes "blocks h a = Some b" and "contents b = Object w"
    and "\<not> (bufferSize cfg w = 0 \<and> bufferAlignment cfg w = 0)"
    and "sizeofAllocLambdaWrapper f \<le> bufferSize cfg w"
    and "alignofAllocLambdaWrapper f \<le> bufferAlignment cfg w"
  shows "assignFunctionCommon_AllocLambda cfg Copy (Some a) f h =
     ((Returns (), Some a, ()),
      h\<lparr>blocks := (blocks h)(a \<mapsto>
           b\<lparr>contents := Object (AllocLambdaWrapper f (bufferSize cfg w) (bufferAlignment cfg w))\<rparr>)\<rparr>)"
  using assms
  by (simp add: assignFunctionCommon_AllocLambda_def allocLambdaBufferOp_def object_at_def
      checkOrReallocate_keep destroy_at_def set_contents_def copyInitWrapper_Alloc_def
      moveInitWrapper_Alloc_def)

lemma assignFunctionCommon_AllocLambda_grows:
  assumes "blocks h a = Some b" and "contents b = Object w"
    and "(bufferSize cfg w = 0 \<and> bufferAlignment cfg w = 0)
         \<or> bufferSize cfg w < sizeofAllocLambdaWrapper f
         \<or> bufferAlignment cfg w < alignofAllocLambdaWrapper f"
  shows "fst (fst (assignFunctionCommon_AllocLambda cfg Copy (Some a) f h)) = Undefined"
  using assms
  by (auto simp add: assignFunctionCommon_AllocLambda_def allocLambdaBufferOp_def object_at_def
      checkOrReallocate_def operator_new_def destroy_at_def set_contents_def Let_def)

lemma release_blocks_other:
  "release cfg sp h = (Returns (), h') \<Longrightarrow> sp \<noteq> Some a \<Longrightarrow> blocks h' a = blocks h a"
  by (auto simp add: release_def sharedBufferDeleter_def destroy_at_def set_contents_def Let_def
      split: option.splits if_splits prod.splits)

lemma release_fresh:
  "release cfg sp h = (r, h') \<Longrightarrow> fresh h' = fresh h"
  by (auto simp add: release_def sharedBufferDeleter_def destroy_at_def set_contents_def Let_def
      split: option.splits if_splits prod.splits)

lemma release_shared:
  "blocks h a = Some b \<Longrightarrow> 1 < useCount b \<Longrightarrow>
   release cfg (Some a) h = (Returns (), h\<lparr>blocks := (blocks h)(a \<mapsto> b\<lparr>useCount := useCount b - 1\<rparr>)\<rparr>)"
  by (simp add: release_def)

lemma release_last:
  "blocks h a = Some b \<Longrightarrow> useCount b \<le> 1 \<Longrightarrow> contents b = Object w \<Longrightarrow>
   release cfg (Some a) h = (Returns (), h\<lparr>blocks := (blocks h)(a := None)\<rparr>)"
  by (simp add: release_def sharedBufferDeleter_def object_at_def destroy_at_def set_contents_def)

lemma release_None: "release cfg None h = (Returns (), h)"
  by (simp add: release_def)

lemma acquire_Some:
  "blocks h a = Some b \<Longrightarrow>
   acquire (Some a) h = h\<lparr>blocks := (blocks h)(a \<mapsto> b\<lparr>useCount := Suc (useCount b)\<rparr>)\<rparr>"
  by (simp add: acquire_def)

lemma moveAssign_AA:
  assumes run: "moveAssignLambda_AllocLambda_AllocLambda cfg l1 (Some a2) h = ((Returns (), l1', l2'), h')"
    and blk: "blocks h a2 = Some b2" and live: "contents b2 = Object w"
    and own: "(if l1 = Some a2 then 2 else 1) \<le> useCount b2"
    and free: "blocks h (fresh h) = None"
  shows "l1' = Some a2 \<and> object_at h' l1' = Some w
     \<and> l2' = Some (fresh h) \<and> l2' \<noteq> Some a2
     \<and> blocks h' (fresh h) = Some \<lparr>contents = Object (AllocLambdaWrapperStub (firstSize cfg) (firstAlignment cfg)),
            useCount = 1, allocSize = firstSize cfg, allocAlignment = firstAlignment cfg\<rparr>"
proof -
  have ne: "a2 \<noteq> fresh h" using blk free by auto
  obtain r1 h1 where s1: "release cfg l1 (acquire (Some a2) h) = (r1, h1)"
    by (cases "release cfg l1 (acquire (Some a2) h)")
  have acq: "acquire (Some a2) h = h\<lparr>blocks := (blocks h)(a2 \<mapsto> b2\<lparr>useCount := Suc (useCount b2)\<rparr>)\<rparr>"
    using blk by (simp add: acquire_Some)
  from run s1 have r1: "r1 = Returns ()"
    by (auto simp add: moveAssignLambda_AllocLambda_AllocLambda_def shared_ptr_assign_def Let_def
        split: if_splits prod.splits)
  have f1: "fresh h1 = fresh h" using release_fresh[OF s1] acq by simp
  have "\<exists>b. blocks h1 a2 = Some b \<and> contents b = Object w \<and> 1 < useCount b"
  proof (cases "l1 = Some a2")
    case True
    then show ?thesis using s1 r1 acq blk live own
      by (simp add: release_def) auto
  next
    case False
    then show ?thesis using release_blocks_other[of cfg l1 _ h1 a2] s1 r1 acq live own by simp
  qed
  then obtain b where b: "blocks h1 a2 = Some b" "contents b = Object w" "1 < useCount b" by auto
  define h2 where "h2 = h1\<lparr>blocks := (blocks h1)(a2 \<mapsto> b\<lparr>useCount := useCount b - 1\<rparr>)\<rparr>"
  have s2: "shared_ptr_reset cfg (Some a2) h1 = ((Returns (), None), h2)"
    using b by (simp add: shared_ptr_reset_def release_shared h2_def)
  have f2: "fresh h2 = fresh h" using f1 by (simp add: h2_def)
  have s3: "allocLambdaBufferOp cfg None (\<lambda>bufPtr h0. initEmptyLambda_Alloc cfg bufPtr 0 0 h0) h2
      = AllocLambda_default cfg h2"
    by (simp add: AllocLambda_default_def)
  from run s1 r1 s2 s3 have res: "l1' = Some a2" "l2' = Some (fresh h2)"
    "h' = h2\<lparr>blocks := (blocks h2)(fresh h2 \<mapsto>
           \<lparr>contents = Object (AllocLambdaWrapperStub (firstSize cfg) (firstAlignment cfg)),
            useCount = 1, allocSize = firstSize cfg, allocAlignment = firstAlignment cfg\<rparr>),
        fresh := Suc (fresh h2)\<rparr>"
    by (simp_all add: moveAssignLambda_AllocLambda_AllocLambda_def shared_ptr_assign_def
        AllocLambda_default_eq)
  show ?thesis using res f2 ne b by (simp add: object_at_def h2_def)
qed

lemma copyTo_Alloc_eq:
  "copyTo_Alloc cfg w p ds da h =
     (let ((p', s1, a1), h1) =
             checkOrReallocate cfg (allocRelocatedSize cfg w) (allocRelocatedAlignment cfg w) p ds da h;
          (r, h2) = set_contents p' (Object (allocRelocated w s1 a1)) h1
      in ((r, p'), h2))"
  by (cases w) (simp_all add: copyInitWrapper_Alloc_def)

lemma checkOrReallocate_cases:
  "checkOrReallocate cfg wS wA p s a h = ((p', s', a'), h') \<Longrightarrow>
     (p' = p \<and> h' = h \<and> s' = s \<and> a' = a)
   \<or> (p' = Some (fresh h) \<and> fresh h' = Suc (fresh h)
      \<and> h' = h\<lparr>blocks := (blocks h)(fresh h \<mapsto>
           \<lparr>contents = Raw, useCount = 0, allocSize = s', allocAlignment = a'\<rparr>),
        fresh := Suc (fresh h)\<rparr>)"
  by (auto simp add: checkOrReallocate_def operator_new_def Let_def split: if_splits)

lemma object_at_SomeD:
  "object_at h p = Some w \<Longrightarrow> \<exists>a b. p = Some a \<and> blocks h a = Some b \<and> contents b = Object w"
  by (auto simp add: object_at_def split: option.splits storage.splits)

lemma destroy_at_live:
  "blocks h a = Some b \<Longrightarrow> contents b = Object w \<Longrightarrow>
   destroy_at (Some a) h = (Returns (), h\<lparr>blocks := (blocks h)(a \<mapsto> b\<lparr>contents := Raw\<rparr>)\<rparr>)"
  by (simp add: destroy_at_def object_at_def set_contents_def)

lemma copyTo_Alloc_result:
  assumes "copyTo_Alloc cfg w2 (Some a1) s a h = ((Returns (), p), h')" and "blocks h a1 = Some b1"
  shows "\<exists>s' a'. object_at h' p = Some (allocRelocated w2 s' a')
     \<and> (p = Some a1 \<or> p = Some (fresh h)) \<and> fresh h \<le> fresh h'"
proof -
  obtain p' s' a' h1 where c: "checkOrReallocate cfg (allocRelocatedSize cfg w2)
       (allocRelocatedAlignment cfg w2) (Some a1) s a h = ((p', s', a'), h1)"
    by (metis prod_cases3 surj_pair)
  from checkOrReallocate_cases[OF c] show ?thesis
  proof
    assume "p' = Some a1 \<and> h1 = h \<and> s' = s \<and> a' = a"
    then show ?thesis using assms c
      by (fastforce simp add: copyTo_Alloc_eq set_contents_def object_at_def)
  next
    assume "p' = Some (fresh h) \<and> fresh h1 = Suc (fresh h)
      \<and> h1 = h\<lparr>blocks := (blocks h)(fresh h \<mapsto>
           \<lparr>contents = Raw, useCount = 0, allocSize = s', allocAlignment = a'\<rparr>),
        fresh := Suc (fresh h)\<rparr>"
    then show ?thesis using assms c
      by (fastforce simp add: copyTo_Alloc_eq set_contents_def object_at_def)
  qed
qed

lemma reset_to_keeps_target:
  assumes "shared_ptr_reset_to cfg buf p h = ((Returns (), buf'), h')" and "p \<noteq> buf"
    and "object_at h p = Some w"
  shows "buf' = p \<and> object_at h' p = Some w"
proof -
  obtain a b where a: "p = Some a" "blocks h a = Some b" "contents b = Object w"
    using object_at_SomeD[OF assms(3)] by auto
  have acq: "acquire p h = h\<lparr>blocks := (blocks h)(a \<mapsto> b\<lparr>useCount := Suc (useCount b)\<rparr>)\<rparr>"
    using a by (simp add: acquire_Some)
  from assms(1) have rel: "release cfg buf (acquire p h) = (Returns (), h')" and b': "buf' = p"
    by (auto simp add: shared_ptr_reset_to_def split: prod.splits)
  have "blocks h' a = blocks (acquire p h) a"
    using release_blocks_other[OF rel, of a] assms(2) a by auto
  then show ?thesis using acq a b' by (simp add: object_at_def)
qed

lemma moveAssign_AL:
  assumes run: "moveAssignLambda_AllocLambda_Lambda cfg l1 (Object w2) h = ((Returns (), l1', l2'), h')"
  shows "(\<exists>s a. object_at h' l1' = Some (allocRelocated w2 s a))
     \<and> l2' = Object (NonAllocLambdaWrapperStub (bufferSize cfg w2) (bufferAlignment cfg w2))"
proof -
  obtain r p x h1 where op1: "moveBuffer_AllocLambda_Lambda cfg l1 (Object w2) h = ((r, p, x), h1)"
    by (metis prod_cases3 surj_pair)
  from run op1 have r: "r = Returns ()"
    by (auto simp add: moveAssignLambda_AllocLambda_Lambda_def allocLambdaBufferOp_def
        split: if_splits prod.splits)
  from op1 r obtain w1 where w1: "object_at h l1 = Some w1"
    by (cases "object_at h l1") (auto simp add: moveBuffer_AllocLambda_Lambda_def)
  then obtain a1 b1 where a1: "l1 = Some a1" "blocks h a1 = Some b1" "contents b1 = Object w1"
    using object_at_SomeD by blast
  define hA where "hA = h\<lparr>blocks := (blocks h)(a1 \<mapsto> b1\<lparr>contents := Raw\<rparr>)\<rparr>"
  have dA: "destroy_at l1 h = (Returns (), hA)" using a1 by (simp add: destroy_at_live hA_def)
  obtain r1 p1 h2 where c: "copyTo_Alloc cfg w2 l1 (bufferSize cfg w1) (bufferAlignment cfg w1) hA = ((r1, p1), h2)"
    by (metis surj_pair)
  from op1 r w1 dA c have r1: "r1 = Returns ()" and px: "p = p1" "h1 = h2"
    and x: "x = Object (NonAllocLambdaWrapperStub (bufferSize cfg w2) (bufferAlignment cfg w2))"
    by (auto simp add: moveBuffer_AllocLambda_Lambda_def Let_def destroy_def
        initEmptyLambda_NonAlloc_eq split: if_splits)
  have "blocks hA a1 = Some (b1\<lparr>contents := Raw\<rparr>)" by (simp add: hA_def)
  from copyTo_Alloc_result[OF c[unfolded r1 a1(1)] this]
  obtain s' a' where obj: "object_at h2 p1 = Some (allocRelocated w2 s' a')" by auto
  show ?thesis
  proof (cases "p = l1")
    case True
    with run op1 r have "l1' = l1" "h' = h1" "l2' = x"
      by (auto simp add: moveAssignLambda_AllocLambda_Lambda_def allocLambdaBufferOp_def)
    then show ?thesis using obj px x True by auto
  next
    case False
    with run op1 r have rs: "shared_ptr_reset_to cfg l1 p h1 = ((Returns (), l1'), h')" and "l2' = x"
      by (auto simp add: moveAssignLambda_AllocLambda_Lambda_def allocLambdaBufferOp_def
          split: prod.splits)
    from reset_to_keeps_target[OF rs False] obj px have "l1' = p \<and> object_at h' p = Some (allocRelocated w2 s' a')"
      by simp
    then show ?thesis using x \<open>l2' = x\<close> by auto
  qed
qed

lemma initEmptyLambda_Alloc_keep:
  assumes "blocks h a = Some b" and "\<not> (s = 0 \<and> al = 0)"
    and "sizeofAllocLambdaWrapperStub cfg \<le> s" and "alignofAllocLambdaWrapperStub cfg \<le> al"
  shows "initEmptyLambda_Alloc cfg (Some a) s al h =
     ((Returns (), Some a, ()),
      h\<lparr>blocks := (blocks h)(a \<mapsto> b\<lparr>contents := Object (AllocLambdaWrapperStub s al)\<rparr>)\<rparr>)"
  using assms by (simp add: initEmptyLambda_Alloc_def checkOrReallocate_keep set_contents_def)

lemma initEmptyLambda_Alloc_returns:
  assumes "blocks h a = Some b"
  shows "fst (fst (initEmptyLambda_Alloc cfg (Some a) s al h)) = Returns ()"
  using assms
  by (auto simp add: initEmptyLambda_Alloc_def checkOrReallocate_def operator_new_def
      set_contents_def Let_def)

lemma moveBuffer_Lambda_AllocLambda_eq:
  assumes "blocks h a2 = Some b2" and "contents b2 = Object w2"
  shows "moveBuffer_Lambda_AllocLambda cfg (Object w1) (Some a2) h =
     (if bufferSize cfg w1 < relocatedSize cfg w2
      then ((Throws (IncompatibleLambdaError BufferTooSmall), Raw), h)
      else if bufferAlignment cfg w1 < relocatedAlignment cfg w2
      then ((Throws (IncompatibleLambdaError BufferMisaligned), Raw), h)
      else (let ((r3, buf2', u), h3) =
                  initEmptyLambda_Alloc cfg (Some a2) (bufferSize cfg w2) (bufferAlignment cfg w2)
                    (h\<lparr>blocks := (blocks h)(a2 \<mapsto> b2\<lparr>contents := Raw\<rparr>)\<rparr>)
            in ((r3, Object (relocated w2 (bufferSize cfg w1) (bufferAlignment cfg w1))), h3)))"
  using assms
  by (simp add: moveBuffer_Lambda_AllocLambda_def destroy_def Let_def object_at_def
      copyTo_NonAlloc_eq destroy_at_def set_contents_def)

lemma moveBuffer_Lambda_AllocLambda_outcome:
  assumes "blocks h a2 = Some b2" and "contents b2 = Object w2"
  shows "fst (fst (moveBuffer_Lambda_AllocLambda cfg (Object w1) (Some a2) h)) =
     (if bufferSize cfg w1 < relocatedSize cfg w2
      then Throws (IncompatibleLambdaError BufferTooSmall)
      else if bufferAlignment cfg w1 < relocatedAlignment cfg w2
      then Throws (IncompatibleLambdaError BufferMisaligned)
      else Returns ())"
proof -
  let ?h = "h\<lparr>blocks := (blocks h)(a2 \<mapsto> b2\<lparr>contents := Raw\<rparr>)\<rparr>"
  have "fst (fst (initEmptyLambda_Alloc cfg (Some a2) (bufferSize cfg w2) (bufferAlignment cfg w2) ?h)) = Returns ()"
    by (rule initEmptyLambda_Alloc_returns[where b="b2\<lparr>contents := Raw\<rparr>"]) simp
  then show ?thesis
    by (auto simp add: moveBuffer_Lambda_AllocLambda_eq[OF assms] split: prod.splits)
qed


section \<open>Calling a lambda\<close>

lemma op_relocated [simp]: "op (relocated w s a) args = op w args"
  by (cases w) simp_all

lemma present_relocated [simp]: "present (relocated w s a) = present w"
  by (cases w) simp_all

lemma op_allocRelocated [simp]: "op (allocRelocated w s a) args = op w args"
  by (cases w) simp_all

lemma present_allocRelocated [simp]: "present (allocRelocated w s a) = present w"
  by (cases w) simp_all

lemma noexcept_idem [simp]: "noexcept (noexcept r) = noexcept r"
  by (cases r) simp_all



lemma Lambda_default_eq:
  "Lambda_default cfg =
     (if CX_LAMBDA_BUF_SIZE cfg < sizeofNonAllocLambdaWrapperStub cfg
      then (Throws (IncompatibleLambdaError BufferTooSmall), Raw)
      else if CX_LAMBDA_BUF_ALIGN cfg < alignofNonAllocLambdaWrapperStub cfg
      then (Throws (IncompatibleLambdaError BufferMisaligned), Raw)
      else (Returns (),
            Object (NonAllocLambdaWrapperStub (CX_LAMBDA_BUF_SIZE cfg) (CX_LAMBDA_BUF_ALIGN cfg))))"
  by (simp add: Lambda_default_def initEmptyLambda_NonAlloc_eq)

lemma Lambda_from_Functor_result:
  assumes "Lambda_from_Functor cfg Copy f = (Returns (), l)"
  shows "l = Object (NonAllocLambdaWrapper f)"
  using assms
  by (auto simp add: Lambda_from_Functor_def Lambda_default_eq copyAssignFunction_Lambda_def
      moveAssignFunction_Lambda_def assignFunctionCommon_Lambda_eq split: if_splits)

lemma AllocLambda_from_Functor_result:
  assumes "AllocLambda_from_Functor cfg Copy f h = ((Returns (), al, u), h')"
  shows "\<exists>s a. object_at h' al = Some (AllocLambdaWrapper f s a)"
proof -
  let ?h1 = "h\<lparr>blocks := (blocks h)(fresh h \<mapsto>
           \<lparr>contents = Object (AllocLambdaWrapperStub (firstSize cfg) (firstAlignment cfg)),
            useCount = 1, allocSize = firstSize cfg, allocAlignment = firstAlignment cfg\<rparr>),
        fresh := Suc (fresh h)\<rparr>"
  let ?b = "\<lparr>contents = Object (AllocLambdaWrapperStub (firstSize cfg) (firstAlignment cfg)),
            useCount = 1, allocSize = firstSize cfg, allocAlignment = firstAlignment cfg\<rparr> :: ('a, 'b) block"
  let ?w = "AllocLambdaWrapperStub (firstSize cfg) (firstAlignment cfg) :: ('a, 'b) LambdaBase"
  have blk: "blocks ?h1 (fresh h) = Some ?b" by simp
  have live: "contents ?b = Object ?w" by simp
  from assms have run: "assignFunctionCommon_AllocLambda cfg Copy (Some (fresh h)) f ?h1 = ((Returns (), al, u), h')"
    by (cases Copy) (simp_all add: AllocLambda_from_Functor_def AllocLambda_default_eq
        copyAssignFunction_AllocLambda_def moveAssignFunction_AllocLambda_def)
  show ?thesis
  proof (cases "(bufferSize cfg ?w = 0 \<and> bufferAlignment cfg ?w = 0)
         \<or> bufferSize cfg ?w < sizeofAllocLambdaWrapper f
         \<or> bufferAlignment cfg ?w < alignofAllocLambdaWrapper f")
    case True
    from assignFunctionCommon_AllocLambda_grows[OF blk live True, of Copy] run show ?thesis by simp
  next
    case False
    then have "assignFunctionCommon_AllocLambda cfg Copy (Some (fresh h)) f ?h1 =
     ((Returns (), Some (fresh h), ()),
      ?h1\<lparr>blocks := (blocks ?h1)(fresh h \<mapsto>
           ?b\<lparr>contents := Object (AllocLambdaWrapper f (bufferSize cfg ?w) (bufferAlignment cfg ?w))\<rparr>)\<rparr>)"
      by (intro assignFunctionCommon_AllocLambda_fits[OF blk live]) auto
    with run show ?thesis by (auto simp add: object_at_def)
  qed
qed


lemma AllocLambda_from_Functor_run:
  "AllocLambda_from_Functor cfg Copy f h =
     assignFunctionCommon_AllocLambda cfg Copy (Some (fresh h)) f
       (h\<lparr>blocks := (blocks h)(fresh h \<mapsto>
           \<lparr>contents = Object (AllocLambdaWrapperStub (firstSize cfg) (firstAlignment cfg)),
            useCount = 1, allocSize = firstSize cfg, allocAlignment = firstAlignment cfg\<rparr>),
          fresh := Suc (fresh h)\<rparr>)"
  by (cases Copy)
     (simp_all add: AllocLambda_from_Functor_def AllocLambda_default_eq
        copyAssignFunction_AllocLambda_def moveAssignFunction_AllocLambda_def)


text \<open>
  A callable whose heap wrapper does not fit the first heap buffer makes
  \<open>assignFunctionCommon\<close> reallocate and then call \<open>destroy\<close> on the new block, in which no
  object lives.
\<close>

lemma AllocLambda_from_Functor_grows:
  assumes "firstSize cfg < sizeofAllocLambdaWrapper f
     \<or> firstAlignment cfg < alignofAllocLambdaWrapper f"
  shows "fst (fst (AllocLambda_from_Functor cfg Copy f h)) = Undefined"
proof -
  let ?b = "\<lparr>contents = Object (AllocLambdaWrapperStub (firstSize cfg) (firstAlignment cfg)),
            useCount = 1, allocSize = firstSize cfg, allocAlignment = firstAlignment cfg\<rparr>
            :: ('a, 'b) block"
  let ?h1 = "h\<lparr>blocks := (blocks h)(fresh h \<mapsto> ?b), fresh := Suc (fresh h)\<rparr>"
  let ?w = "AllocLambdaWrapperStub (firstSize cfg) (firstAlignment cfg) :: ('a, 'b) LambdaBase"
  have blk: "blocks ?h1 (fresh h) = Some ?b" by simp
  have live: "contents ?b = Object ?w" by simp
  from assms have short: "(bufferSize cfg ?w = 0 \<and> bufferAlignment cfg ?w = 0)
         \<or> bufferSize cfg ?w < sizeofAllocLambdaWrapper f
         \<or> bufferAlignment cfg ?w < alignofAllocLambdaWrapper f"
    by auto
  from assignFunctionCommon_AllocLambda_grows[OF blk live short, of Copy]
  show ?thesis by (simp add: AllocLambda_from_Functor_run)
qed

lemma AllocLambda_from_fills:
  "fst (fst (AllocLambda_from_Functor cfg64 Copy fills emptyHeap)) = Undefined"
  by (rule AllocLambda_from_Functor_grows)
     (simp add: firstSize_def firstAlignment_def cfg64_def fills_def)



text \<open>The definitions that evaluate the operations on concrete heaps.\<close>

lemmas eval_defs =
  AllocLambda_from_Functor_def AllocLambda_default_eq Lambda_from_Functor_def Lambda_default_eq
  copyAssignFunction_AllocLambda_def copyAssignFunction_Lambda_def
  assignFunctionCommon_AllocLambda_def assignFunctionCommon_Lambda_eq
  copyAssignLambda_AllocLambda_AllocLambda_def copyAssignLambda_AllocLambda_Lambda_def
  moveAssignLambda_AllocLambda_AllocLambda_def copyBuffer_Alloc_def copyTo_Alloc_eq
  shared_ptr_assign_def shared_ptr_reset_def shared_ptr_reset_to_def release_def acquire_def
  sharedBufferDeleter_def allocLambdaBufferOp_def object_at_def checkOrReallocate_def
  operator_new_def destroy_at_def set_contents_def copyInitWrapper_Alloc_def
  AllocLambda_call_def invoke_def initEmptyLambda_Alloc_def
  emptyHeap_def firstSize_def firstAlignment_def cfg64_def




section \<open>Calling an empty lambda\<close>

lemma Lambda_call_relocated [simp]:
  "Lambda_call p (Object (relocated w s a)) args = Lambda_call p (Object w) args"
  by (cases w) (simp_all add: Lambda_call_def op_variadic_def)

lemma Lambda_call_empty:
  assumes "Lambda_bool l = Returns False"
  shows "Lambda_call p l args =
     (if noexceptQualified p then Terminates else Throws UninitializedLambdaError)"
proof -
  from assms obtain w where l: "l = Object w" and w: "\<not> present w"
    by (cases l) (auto simp add: Lambda_bool_def)
  from w show ?thesis unfolding l
    by (cases w) (auto simp add: Lambda_call_def op_variadic_def)
qed

lemma AllocLambda_call_empty:
  assumes "AllocLambda_bool al h = Returns False"
  shows "AllocLambda_call al args h = Throws UninitializedLambdaError"
proof -
  from assms obtain w where l: "object_at h al = Some w" and w: "\<not> present w"
    by (cases "object_at h al") (auto simp add: AllocLambda_bool_def)
  from w show ?thesis
    by (cases w) (auto simp add: AllocLambda_call_def l)
qed

lemma Lambda_default_empty:
  assumes "staticAssertions cfg"
  shows "Lambda_default cfg =
     (Returns (), Object (NonAllocLambdaWrapperStub (CX_LAMBDA_BUF_SIZE cfg) (CX_LAMBDA_BUF_ALIGN cfg)))"
  using assms by (auto simp add: Lambda_default_eq staticAssertions_def)

lemma AllocLambda_bool_stub:
  "object_at h al = Some (AllocLambdaWrapperStub s a) \<Longrightarrow> AllocLambda_bool al h = Returns False"
  by (simp add: AllocLambda_bool_def)

lemma moveAssign_LL:
  assumes "moveAssignLambda_Lambda_Lambda cfg l1 l2 = (Returns (), l1', l2')"
  shows "\<exists>w1 w2. l1 = Object w1 \<and> l2 = Object w2
     \<and> l1' = Object (relocated w2 (bufferSize cfg w1) (bufferAlignment cfg w1))
     \<and> l2' = Object (NonAllocLambdaWrapperStub (bufferSize cfg w2) (bufferAlignment cfg w2))"
proof -
  from assms obtain w1 where l1: "l1 = Object w1"
    by (cases l1) (auto simp add: moveAssignLambda_Lambda_Lambda_def moveBuffer_Lambda_Lambda_def)
  from assms l1 obtain w2 where l2: "l2 = Object w2"
    by (cases l2) (auto simp add: moveAssignLambda_Lambda_Lambda_def moveBuffer_Lambda_Lambda_def
        destroy_def)
  from assms show ?thesis unfolding l1 l2
    by (auto simp add: moveAssignLambda_Lambda_Lambda_def moveBuffer_Lambda_Lambda_eq
        split: if_splits)
qed

lemma moveAssign_LA:
  assumes run: "moveAssignLambda_Lambda_AllocLambda cfg l1 (Some a2) h = ((Returns (), l1'), h')"
    and blk: "blocks h a2 = Some b2" and live: "contents b2 = Object w"
    and nz: "\<not> (bufferSize cfg w = 0 \<and> bufferAlignment cfg w = 0)"
    and fits: "sizeofAllocLambdaWrapperStub cfg \<le> bufferSize cfg w"
      "alignofAllocLambdaWrapperStub cfg \<le> bufferAlignment cfg w"
  shows "\<exists>w1. l1 = Object w1
     \<and> l1' = Object (relocated w (bufferSize cfg w1) (bufferAlignment cfg w1))
     \<and> object_at h' (Some a2) = Some (AllocLambdaWrapperStub (bufferSize cfg w) (bufferAlignment cfg w))"
proof -
  from run obtain w1 where l1: "l1 = Object w1"
    by (cases l1) (auto simp add: moveAssignLambda_Lambda_AllocLambda_def moveBuffer_Lambda_AllocLambda_def)
  let ?h = "h\<lparr>blocks := (blocks h)(a2 \<mapsto> b2\<lparr>contents := Raw\<rparr>)\<rparr>"
  have "blocks ?h a2 = Some (b2\<lparr>contents := Raw\<rparr>)" by simp
  from initEmptyLambda_Alloc_keep[OF this nz fits]
  have init: "initEmptyLambda_Alloc cfg (Some a2) (bufferSize cfg w) (bufferAlignment cfg w) ?h =
     ((Returns (), Some a2, ()),
      ?h\<lparr>blocks := (blocks ?h)(a2 \<mapsto> b2\<lparr>contents := Raw\<rparr>\<lparr>contents := Object (AllocLambdaWrapperStub (bufferSize cfg w) (bufferAlignment cfg w))\<rparr>)\<rparr>)" .
  from run show ?thesis unfolding l1
    by (auto simp add: moveAssignLambda_Lambda_AllocLambda_def
        moveBuffer_Lambda_AllocLambda_eq[OF blk live] init object_at_def split: if_splits)
qed

text \<open>
  C2. A lambda whose record is a stub (\<open>operator bool\<close> gives false) answers a call with
  \<open>UninitializedLambdaError\<close> when its prototype is unqualified, and terminates the
  process when its prototype is \<open>noexcept\<close>. The only \<open>AllocLambda\<close> with a call operator is
  the unqualified, fixed-arity one, and it throws. Default-constructed lambdas are in
  that state, and so is the source of a move assignment that returned.
\<close>

theorem uninitialized_call:
  "(Lambda_bool (l :: ('a, 'r) Lambda) = Returns False \<longrightarrow>
      Lambda_call p l args =
        (if noexceptQualified p then Terminates else Throws UninitializedLambdaError))
   \<and> (AllocLambda_bool al (h :: ('a, 'r) heap) = Returns False \<longrightarrow>
      AllocLambda_call al args h = Throws UninitializedLambdaError)
   \<and> (staticAssertions cfg \<longrightarrow>
      (case (Lambda_default cfg :: unit outcome \<times> ('a, 'r) Lambda) of
         (r, l0) \<Rightarrow> r = Returns () \<and> Lambda_bool l0 = Returns False))
   \<and> (case AllocLambda_default cfg h of
        ((r, al0, u), h0) \<Rightarrow> r = Returns () \<and> AllocLambda_bool al0 h0 = Returns False)
   \<and> (moveAssignLambda_Lambda_Lambda cfg (l1 :: ('a, 'r) Lambda) l2 = (Returns (), l1', l2') \<longrightarrow>
      Lambda_bool l2' = Returns False)
   \<and> (moveAssignLambda_AllocLambda_AllocLambda cfg al1 (Some a2) h = ((Returns (), al1', al2'), h')
      \<and> blocks h a2 = Some b2 \<and> contents b2 = Object w
      \<and> (if al1 = Some a2 then 2 else 1) \<le> useCount b2 \<and> blocks h (fresh h) = None \<longrightarrow>
      AllocLambda_bool al2' h' = Returns False)"
proof (intro conjI impI)
  assume "Lambda_bool l = Returns False"
  then show "Lambda_call p l args =
        (if noexceptQualified p then Terminates else Throws UninitializedLambdaError)"
    by (rule Lambda_call_empty)
next
  assume "AllocLambda_bool al h = Returns False"
  then show "AllocLambda_call al args h = Throws UninitializedLambdaError"
    by (rule AllocLambda_call_empty)
next
  assume "staticAssertions cfg"
  then show "case (Lambda_default cfg :: unit outcome \<times> ('a, 'r) Lambda) of
         (r, l0) \<Rightarrow> r = Returns () \<and> Lambda_bool l0 = Returns False"
    by (simp add: Lambda_default_empty Lambda_bool_def)
next
  show "case AllocLambda_default cfg h of
        ((r, al0, u), h0) \<Rightarrow> r = Returns () \<and> AllocLambda_bool al0 h0 = Returns False"
    by (simp add: AllocLambda_default_eq AllocLambda_bool_def object_at_def)
next
  assume "moveAssignLambda_Lambda_Lambda cfg (l1 :: ('a, 'r) Lambda) l2 = (Returns (), l1', l2')"
  from moveAssign_LL[OF this] show "Lambda_bool l2' = Returns False"
    by (auto simp add: Lambda_bool_def)
next
  assume a: "moveAssignLambda_AllocLambda_AllocLambda cfg al1 (Some a2) h = ((Returns (), al1', al2'), h')
      \<and> blocks h a2 = Some b2 \<and> contents b2 = Object w
      \<and> (if al1 = Some a2 then 2 else 1) \<le> useCount b2 \<and> blocks h (fresh h) = None"
  then have "al2' = Some (fresh h) \<and> blocks h' (fresh h) =
       Some \<lparr>contents = Object (AllocLambdaWrapperStub (firstSize cfg) (firstAlignment cfg)),
            useCount = 1, allocSize = firstSize cfg, allocAlignment = firstAlignment cfg\<rparr>"
    using moveAssign_AA[of cfg al1 a2 h al1' al2' h' b2 w] by simp
  then show "AllocLambda_bool al2' h' = Returns False"
    by (simp add: AllocLambda_bool_def object_at_def)
qed

lemma move_XY:
  "moveAssignLambda_AllocLambda_AllocLambda cfg64 (Some 2) (Some 1) heapXY
     = ((Returns (), Some 1, Some 3), heapMoved)"
  by (auto simp add: eval_defs heapXY_def heapMoved_def)

lemma move_inline:
  "moveAssignLambda_Lambda_Lambda cfg64 emptyStub holdsAddOne = (Returns (), holdsAddOne, emptyStub)"
  by (simp add: moveAssignLambda_Lambda_Lambda_def moveBuffer_Lambda_Lambda_eq emptyStub_def
      holdsAddOne_def cfg64_def addOne_def)

theorem uninitialized_call_witness:
  "Lambda_default cfg64 = (Returns (), emptyStub)
   \<and> Lambda_call unqualified emptyStub 5 = Throws UninitializedLambdaError
   \<and> Lambda_call nonThrowing emptyStub 5 = Terminates
   \<and> AllocLambda_default cfg64 emptyHeap \<noteq> ((Undefined, None, ()), emptyHeap)
   \<and> AllocLambda_call (Some 2) 5 heapXY = Throws UninitializedLambdaError
   \<and> moveAssignLambda_Lambda_Lambda cfg64 emptyStub holdsAddOne = (Returns (), holdsAddOne, emptyStub)
   \<and> moveAssignLambda_AllocLambda_AllocLambda cfg64 (Some 2) (Some 1) heapXY
       = ((Returns (), Some 1, Some 3), heapMoved)
   \<and> AllocLambda_call (Some 3) 5 heapMoved = Throws UninitializedLambdaError"
proof -
  have sa: "staticAssertions cfg64" by (simp add: staticAssertions_def cfg64_def)
  have d: "Lambda_default cfg64 = (Returns (), emptyStub)"
    by (simp add: Lambda_default_eq cfg64_def emptyStub_def)
  have b1: "Lambda_bool emptyStub = Returns False"
    by (simp add: Lambda_bool_def emptyStub_def)
  have b2: "AllocLambda_bool (Some 2) heapXY = Returns False"
    by (simp add: AllocLambda_bool_def object_at_def heapXY_def)
  have pre: "blocks heapXY 1 = Some \<lparr>contents = Object (AllocLambdaWrapper addOne 64 64),
        useCount = 1, allocSize = 64, allocAlignment = 64\<rparr>"
    "blocks heapXY (fresh heapXY) = None"
    by (simp_all add: heapXY_def)
  have q: "\<not> noexceptQualified unqualified" "noexceptQualified nonThrowing"
    by (simp_all add: unqualified_def nonThrowing_def)
  note first = uninitialized_call [where l = emptyStub and p = unqualified and args = 5
      and al = "Some 2" and h = heapXY and cfg = cfg64
      and ?l1.0 = emptyStub and ?l2.0 = holdsAddOne and l1' = holdsAddOne and l2' = emptyStub
      and ?al1.0 = "Some 2" and ?a2.0 = 1 and al1' = "Some 1" and al2' = "Some 3" and h' = heapMoved
      and ?b2.0 = "\<lparr>contents = Object (AllocLambdaWrapper addOne 64 64),
        useCount = 1, allocSize = 64, allocAlignment = 64\<rparr>"
      and w = "AllocLambdaWrapper addOne 64 64"]
  from b1 q first have one1: "Lambda_call unqualified emptyStub 5 = Throws UninitializedLambdaError"
    by simp
  from b2 first have one2: "AllocLambda_call (Some 2) 5 heapXY = Throws UninitializedLambdaError"
    by simp
  from pre move_XY first have one3: "AllocLambda_bool (Some 3) heapMoved = Returns False"
    by simp
  note one = one1 one2 one3
  from b1 q one(3) uninitialized_call [where l = emptyStub and p = nonThrowing and args = 5
      and al = "Some 3" and h = heapMoved]
  have two: "Lambda_call nonThrowing emptyStub 5 = Terminates"
    "AllocLambda_call (Some 3) 5 heapMoved = Throws UninitializedLambdaError"
    by simp_all
  have "AllocLambda_default cfg64 emptyHeap \<noteq> ((Undefined, None, ()), emptyHeap)"
    by (simp add: AllocLambda_default_eq)
  with d one two move_XY move_inline show ?thesis by simp
qed

section \<open>Assigning into an inline buffer\<close>

text \<open>
  C3. Assigning a callable to a \<open>Lambda\<close>, or relocating a record into it from another
  \<open>Lambda\<close> or from an \<open>AllocLambda\<close>, raises \<open>IncompatibleLambdaError\<close> exactly when the
  size of the wrapper to be constructed exceeds the size the destination reports, or its
  alignment exceeds the alignment the destination reports. A wrapper exactly as large as
  the buffer is accepted, one byte more is refused, and after an assignment that returned
  the destination still reports the two inline constants.
\<close>

theorem inline_buffer_check:
  "isIncompatibleLambdaError (fst (copyAssignFunction_Lambda cfg (Object w) f))
      = (bufferSize cfg w < sizeofNonAllocLambdaWrapper f
         \<or> bufferAlignment cfg w < alignofNonAllocLambdaWrapper f)
   \<and> isIncompatibleLambdaError (fst (moveAssignFunction_Lambda cfg (Object w) f))
      = (bufferSize cfg w < sizeofNonAllocLambdaWrapper f
         \<or> bufferAlignment cfg w < alignofNonAllocLambdaWrapper f)
   \<and> isIncompatibleLambdaError (fst (copyAssignLambda_Lambda_Lambda cfg (Object w) (Object w2)))
      = (bufferSize cfg w < relocatedSize cfg w2 \<or> bufferAlignment cfg w < relocatedAlignment cfg w2)
   \<and> (sizeofNonAllocLambdaWrapperStub cfg \<le> bufferSize cfg w2
      \<and> alignofNonAllocLambdaWrapperStub cfg \<le> bufferAlignment cfg w2 \<longrightarrow>
      isIncompatibleLambdaError (fst (moveAssignLambda_Lambda_Lambda cfg (Object w) (Object w2)))
      = (bufferSize cfg w < relocatedSize cfg w2 \<or> bufferAlignment cfg w < relocatedAlignment cfg w2))
   \<and> (blocks h a2 = Some b2 \<and> contents b2 = Object w2 \<longrightarrow>
      isIncompatibleLambdaError (fst (fst (moveAssignLambda_Lambda_AllocLambda cfg (Object w) (Some a2) h)))
      = (bufferSize cfg w < relocatedSize cfg w2 \<or> bufferAlignment cfg w < relocatedAlignment cfg w2))
   \<and> (sizeofNonAllocLambdaWrapper f = bufferSize cfg w
      \<and> alignofNonAllocLambdaWrapper f \<le> bufferAlignment cfg w \<longrightarrow>
      copyAssignFunction_Lambda cfg (Object w) f = (Returns (), Object (NonAllocLambdaWrapper f)))
   \<and> (sizeofNonAllocLambdaWrapper f = Suc (bufferSize cfg w) \<longrightarrow>
      copyAssignFunction_Lambda cfg (Object w) f
        = (Throws (IncompatibleLambdaError BufferTooSmall), Raw))
   \<and> (copyAssignFunction_Lambda cfg (Object w) f = (Returns (), l') \<longrightarrow>
      l' = Object (NonAllocLambdaWrapper f)
      \<and> bufferSize cfg (NonAllocLambdaWrapper f) = CX_LAMBDA_BUF_SIZE cfg
      \<and> bufferAlignment cfg (NonAllocLambdaWrapper f) = CX_LAMBDA_BUF_ALIGN cfg)
   \<and> (copyAssignLambda_Lambda_Lambda cfg (Object w) (Object w2) = (Returns (), l')
      \<and> bufferSize cfg w = CX_LAMBDA_BUF_SIZE cfg
      \<and> bufferAlignment cfg w = CX_LAMBDA_BUF_ALIGN cfg \<longrightarrow>
      (case l' of Raw \<Rightarrow> False
       | Object w' \<Rightarrow> bufferSize cfg w' = CX_LAMBDA_BUF_SIZE cfg
           \<and> bufferAlignment cfg w' = CX_LAMBDA_BUF_ALIGN cfg))"
proof -
  have rel: "bufferSize cfg (relocated w2 s a) = (if present w2 then CX_LAMBDA_BUF_SIZE cfg else s)"
    "bufferAlignment cfg (relocated w2 s a) = (if present w2 then CX_LAMBDA_BUF_ALIGN cfg else a)"
    for s a by (cases w2; simp)+
  have 5: "blocks h a2 = Some b2 \<and> contents b2 = Object w2 \<longrightarrow>
      isIncompatibleLambdaError (fst (fst (moveAssignLambda_Lambda_AllocLambda cfg (Object w) (Some a2) h)))
      = (bufferSize cfg w < relocatedSize cfg w2 \<or> bufferAlignment cfg w < relocatedAlignment cfg w2)"
    by (simp add: moveAssignLambda_Lambda_AllocLambda_def moveBuffer_Lambda_AllocLambda_outcome)
  have 9: "copyAssignLambda_Lambda_Lambda cfg (Object w) (Object w2) = (Returns (), l')
      \<and> bufferSize cfg w = CX_LAMBDA_BUF_SIZE cfg
      \<and> bufferAlignment cfg w = CX_LAMBDA_BUF_ALIGN cfg \<longrightarrow>
      (case l' of Raw \<Rightarrow> False
       | Object w' \<Rightarrow> bufferSize cfg w' = CX_LAMBDA_BUF_SIZE cfg
           \<and> bufferAlignment cfg w' = CX_LAMBDA_BUF_ALIGN cfg)"
    by (auto simp add: copyAssignLambda_Lambda_Lambda_def copyBuffer_NonAlloc_eq rel
        split: if_splits)
  show ?thesis
    apply (intro conjI)
            apply (simp add: copyAssignFunction_Lambda_def assignFunctionCommon_Lambda_eq)
           apply (simp add: moveAssignFunction_Lambda_def assignFunctionCommon_Lambda_eq)
          apply (simp add: copyAssignLambda_Lambda_Lambda_def copyBuffer_NonAlloc_eq)
         apply (simp add: moveAssignLambda_Lambda_Lambda_def moveBuffer_Lambda_Lambda_eq)
        apply (rule 5)
       apply (simp add: copyAssignFunction_Lambda_def assignFunctionCommon_Lambda_eq)
      apply (simp add: copyAssignFunction_Lambda_def assignFunctionCommon_Lambda_eq)
     apply (auto simp add: copyAssignFunction_Lambda_def assignFunctionCommon_Lambda_eq split: if_splits)[1]
    apply (rule 9)
    done
qed

lemmas inline_eval =
  copyAssignFunction_Lambda_def moveAssignFunction_Lambda_def assignFunctionCommon_Lambda_eq
  copyAssignLambda_Lambda_Lambda_def copyBuffer_NonAlloc_eq
  moveAssignLambda_Lambda_Lambda_def moveBuffer_Lambda_Lambda_eq
  emptyStub_def holdsAddOne_def holdsOverflows_def cfg64_def

theorem inline_buffer_check_witness:
  "copyAssignFunction_Lambda cfg64 emptyStub fills = (Returns (), Object (NonAllocLambdaWrapper fills))
   \<and> copyAssignFunction_Lambda cfg64 emptyStub overflows
       = (Throws (IncompatibleLambdaError BufferTooSmall), Raw)
   \<and> isIncompatibleLambdaError (fst (moveAssignFunction_Lambda cfg64 emptyStub overflows))
   \<and> \<not> isIncompatibleLambdaError (fst (copyAssignLambda_Lambda_Lambda cfg64 emptyStub holdsAddOne))
   \<and> isIncompatibleLambdaError (fst (moveAssignLambda_Lambda_Lambda cfg64 emptyStub holdsOverflows))
   \<and> isIncompatibleLambdaError
        (fst (fst (moveAssignLambda_Lambda_AllocLambda cfg64 emptyStub (Some 1) heapBig)))
   \<and> \<not> isIncompatibleLambdaError
        (fst (fst (moveAssignLambda_Lambda_AllocLambda cfg64 emptyStub (Some 1) heapXY)))"
proof -
  let ?w = "NonAllocLambdaWrapperStub 64 64 :: (nat, nat) LambdaBase"
  have sz: "bufferSize cfg64 ?w = 64" "bufferAlignment cfg64 ?w = 64"
    "sizeofNonAllocLambdaWrapper fills = 64" "alignofNonAllocLambdaWrapper fills = 8"
    "sizeofNonAllocLambdaWrapper overflows = 65" "alignofNonAllocLambdaWrapper overflows = 8"
    "relocatedSize cfg64 (NonAllocLambdaWrapper addOne) = 16"
    "relocatedAlignment cfg64 (NonAllocLambdaWrapper addOne) = 8"
    "relocatedSize cfg64 (NonAllocLambdaWrapper overflows) = 65"
    "relocatedSize cfg64 (AllocLambdaWrapper overflows 81 8) = 65"
    "relocatedSize cfg64 (AllocLambdaWrapper addOne 64 64) = 16"
    "relocatedAlignment cfg64 (AllocLambdaWrapper addOne 64 64) = 8"
    "sizeofNonAllocLambdaWrapperStub cfg64 = 24" "alignofNonAllocLambdaWrapperStub cfg64 = 8"
    "bufferSize cfg64 (NonAllocLambdaWrapper overflows) = 64"
    "bufferAlignment cfg64 (NonAllocLambdaWrapper overflows) = 64"
    by (simp_all add: cfg64_def fills_def overflows_def addOne_def)
  have hp: "blocks heapBig 1 = Some \<lparr>contents = Object (AllocLambdaWrapper overflows 81 8),
        useCount = 1, allocSize = 81, allocAlignment = 8\<rparr>"
    "blocks heapXY 1 = Some \<lparr>contents = Object (AllocLambdaWrapper addOne 64 64),
        useCount = 1, allocSize = 64, allocAlignment = 64\<rparr>"
    by (simp_all add: heapBig_def heapXY_def)
  have ok: "copyAssignFunction_Lambda cfg64 (Object ?w) fills
      = (Returns (), Object (NonAllocLambdaWrapper fills))"
    by (simp add: inline_eval fills_def)
  note a = inline_buffer_check [where cfg = cfg64 and w = ?w and f = fills
      and ?w2.0 = "NonAllocLambdaWrapper addOne" and h = heapXY and ?a2.0 = 1
      and ?b2.0 = "\<lparr>contents = Object (AllocLambdaWrapper addOne 64 64),
        useCount = 1, allocSize = 64, allocAlignment = 64\<rparr>"
      and l' = "Object (NonAllocLambdaWrapper fills)"]
  note b = inline_buffer_check [where cfg = cfg64 and w = ?w and f = overflows
      and ?w2.0 = "NonAllocLambdaWrapper overflows" and h = heapBig and ?a2.0 = 1
      and ?b2.0 = "\<lparr>contents = Object (AllocLambdaWrapper overflows 81 8),
        useCount = 1, allocSize = 81, allocAlignment = 8\<rparr>"]
  note c = inline_buffer_check [where cfg = cfg64 and w = ?w and f = fills
      and ?w2.0 = "AllocLambdaWrapper addOne 64 64" and h = heapXY and ?a2.0 = 1
      and ?b2.0 = "\<lparr>contents = Object (AllocLambdaWrapper addOne 64 64),
        useCount = 1, allocSize = 64, allocAlignment = 64\<rparr>"]
  note d = inline_buffer_check [where cfg = cfg64 and w = ?w and f = overflows
      and ?w2.0 = "AllocLambdaWrapper overflows 81 8" and h = heapBig and ?a2.0 = 1
      and ?b2.0 = "\<lparr>contents = Object (AllocLambdaWrapper overflows 81 8),
        useCount = 1, allocSize = 81, allocAlignment = 8\<rparr>"]
  from sz a have 1: "copyAssignFunction_Lambda cfg64 (Object ?w) fills
      = (Returns (), Object (NonAllocLambdaWrapper fills))"
    "\<not> isIncompatibleLambdaError (fst (copyAssignLambda_Lambda_Lambda cfg64 (Object ?w)
        (Object (NonAllocLambdaWrapper addOne))))"
    by simp_all
  from sz b have 2: "copyAssignFunction_Lambda cfg64 (Object ?w) overflows
       = (Throws (IncompatibleLambdaError BufferTooSmall), Raw)"
    "isIncompatibleLambdaError (fst (moveAssignFunction_Lambda cfg64 (Object ?w) overflows))"
    "isIncompatibleLambdaError (fst (moveAssignLambda_Lambda_Lambda cfg64 (Object ?w)
        (Object (NonAllocLambdaWrapper overflows))))"
    by simp_all
  from sz hp c have 3: "\<not> isIncompatibleLambdaError
        (fst (fst (moveAssignLambda_Lambda_AllocLambda cfg64 (Object ?w) (Some 1) heapXY)))"
    by simp
  from sz hp d have 4: "isIncompatibleLambdaError
        (fst (fst (moveAssignLambda_Lambda_AllocLambda cfg64 (Object ?w) (Some 1) heapBig)))"
    by simp
  from 1 2 3 4 show ?thesis
    by (simp add: emptyStub_def holdsAddOne_def holdsOverflows_def)
qed

text \<open>
  C10. When assigning into a \<open>Lambda\<close> raises \<open>IncompatibleLambdaError\<close> because the
  destination's buffer is too small or under-aligned, the destination's record has been
  destroyed already and nothing has been constructed in its place: the buffer holds no
  live object, so the destination does not hold its previous callable any more.
\<close>

theorem failed_assignment_destroys_destination:
  "(isIncompatibleLambdaError
       (fst (copyAssignFunction_Lambda cfg (Object (w :: ('a, 'r) LambdaBase)) f)) \<longrightarrow>
      snd (copyAssignFunction_Lambda cfg (Object w) f) = Raw)
   \<and> (isIncompatibleLambdaError (fst (moveAssignFunction_Lambda cfg (Object w) f)) \<longrightarrow>
      snd (moveAssignFunction_Lambda cfg (Object w) f) = Raw)
   \<and> (isIncompatibleLambdaError (fst (copyAssignLambda_Lambda_Lambda cfg (Object w) (Object w2))) \<longrightarrow>
      snd (copyAssignLambda_Lambda_Lambda cfg (Object w) (Object w2)) = Raw)
   \<and> (bufferSize cfg w < relocatedSize cfg w2 \<or> bufferAlignment cfg w < relocatedAlignment cfg w2 \<longrightarrow>
      isIncompatibleLambdaError (fst (moveAssignLambda_Lambda_Lambda cfg (Object w) (Object w2)))
      \<and> snd (moveAssignLambda_Lambda_Lambda cfg (Object w) (Object w2)) = (Raw, Object w2))
   \<and> Lambda_bool (Raw :: ('a, 'r) Lambda) = Undefined
   \<and> Lambda_call p (Raw :: ('a, 'r) Lambda) args = Undefined"
  by (auto simp add: copyAssignFunction_Lambda_def moveAssignFunction_Lambda_def
      assignFunctionCommon_Lambda_eq copyAssignLambda_Lambda_Lambda_def copyBuffer_NonAlloc_eq
      moveAssignLambda_Lambda_Lambda_def moveBuffer_Lambda_Lambda_eq Lambda_bool_def
      Lambda_call_def split: if_splits)

theorem failed_assignment_destroys_destination_witness:
  "copyAssignFunction_Lambda cfg64 holdsAddOne overflows
      = (Throws (IncompatibleLambdaError BufferTooSmall), Raw)
   \<and> moveAssignFunction_Lambda cfg64 holdsAddOne overflows
      = (Throws (IncompatibleLambdaError BufferTooSmall), Raw)
   \<and> copyAssignLambda_Lambda_Lambda cfg64 holdsAddOne holdsOverflows
      = (Throws (IncompatibleLambdaError BufferTooSmall), Raw)
   \<and> moveAssignLambda_Lambda_Lambda cfg64 holdsAddOne holdsOverflows
      = (Throws (IncompatibleLambdaError BufferTooSmall), Raw, holdsOverflows)
   \<and> Lambda_call unqualified holdsAddOne 5 = Returns 6
   \<and> Lambda_call unqualified (Raw :: (nat, nat) Lambda) 5 = Undefined"
proof -
  let ?w = "NonAllocLambdaWrapper addOne"
  let ?w2 = "NonAllocLambdaWrapper overflows"
  have e: "fst (copyAssignFunction_Lambda cfg64 (Object ?w) overflows)
      = Throws (IncompatibleLambdaError BufferTooSmall)"
    "fst (moveAssignFunction_Lambda cfg64 (Object ?w) overflows)
      = Throws (IncompatibleLambdaError BufferTooSmall)"
    "fst (copyAssignLambda_Lambda_Lambda cfg64 (Object ?w) (Object ?w2))
      = Throws (IncompatibleLambdaError BufferTooSmall)"
    "fst (moveAssignLambda_Lambda_Lambda cfg64 (Object ?w) (Object ?w2))
      = Throws (IncompatibleLambdaError BufferTooSmall)"
    "bufferSize cfg64 ?w < relocatedSize cfg64 ?w2"
    by (simp_all add: inline_eval overflows_def)
  have c: "Lambda_call unqualified (Object ?w) 5 = Returns 6"
    by (simp add: Lambda_call_def unqualified_def invoke_def addOne_def)
  from e failed_assignment_destroys_destination [where cfg = cfg64 and w = ?w and f = overflows
      and ?w2.0 = ?w2 and p = unqualified and args = 5]
  have "snd (copyAssignFunction_Lambda cfg64 (Object ?w) overflows) = Raw"
    "snd (moveAssignFunction_Lambda cfg64 (Object ?w) overflows) = Raw"
    "snd (copyAssignLambda_Lambda_Lambda cfg64 (Object ?w) (Object ?w2)) = Raw"
    "snd (moveAssignLambda_Lambda_Lambda cfg64 (Object ?w) (Object ?w2)) = (Raw, Object ?w2)"
    "Lambda_call unqualified (Raw :: (nat, nat) Lambda) 5 = Undefined"
    by simp_all
  with e c show ?thesis
    by (simp add: holdsAddOne_def holdsOverflows_def prod_eq_iff)
qed

section \<open>Assigning by move\<close>

text \<open>
  C7, as stated, fails in its last part. Here \<open>x\<close> shares its first buffer with \<open>keep\<close>,
  then receives by copy an inline lambda whose heap wrapper needs 80 bytes, so that its
  buffer is reallocated and reports capacity 80 and alignment 8. Moving \<open>x\<close> into \<open>y\<close>
  leaves \<open>x\<close> with a new buffer that reports capacity 64 and alignment 64.
\<close>

theorem moved_from_buffer_is_default_sized:
  "(case AllocLambda_default cfg64 emptyHeap of ((r0, x, u0), h0) \<Rightarrow>
    case AllocLambda_default cfg64 h0 of ((r1, k, u1), h1) \<Rightarrow>
    case copyAssignLambda_AllocLambda_AllocLambda cfg64 k x h1 of ((r2, keep), h2) \<Rightarrow>
    case Lambda_from_Functor cfg64 True fills of (r3, small) \<Rightarrow>
    case copyAssignLambda_AllocLambda_Lambda cfg64 x small h2 of ((r4, x1, u4), h4) \<Rightarrow>
    case AllocLambda_default cfg64 h4 of ((r5, y, u5), h5) \<Rightarrow>
    case moveAssignLambda_AllocLambda_AllocLambda cfg64 y x1 h5 of ((r6, y1, x2), h6) \<Rightarrow>
      r0 = Returns () \<and> r1 = Returns () \<and> r2 = Returns () \<and> r3 = Returns ()
      \<and> r4 = Returns () \<and> r5 = Returns () \<and> r6 = Returns ()
      \<and> object_at h5 x1 = Some (AllocLambdaWrapper fills 80 8)
      \<and> object_at h6 y1 = Some (AllocLambdaWrapper fills 80 8)
      \<and> object_at h6 x2 = Some (AllocLambdaWrapperStub 64 64))"
  by (simp add: eval_defs fills_def)

text \<open>
  C7, amended. After a move assignment that returned, the destination is present exactly
  when the source was and answers calls as the source did, and the source is empty (for
  an \<open>AllocLambda\<close> moved into a \<open>Lambda\<close>: provided the source's buffer is not zero-sized
  and admits the stub). In \<open>AllocLambda <- AllocLambda\<close> the destination takes over the
  source's block and the source points to a newly allocated block that holds an empty
  stub and has the size and alignment of a first allocation,
  \<open>max CX_LAMBDA_BUF_SIZE sizeof(AllocLambdaWrapperStub)\<close> and
  \<open>max CX_LAMBDA_BUF_ALIGN alignof(AllocLambdaWrapperStub)\<close>, whatever the old buffer
  reported.
\<close>

theorem move_assignment:
  "(moveAssignLambda_Lambda_Lambda cfg l1 (Object w) = (Returns (), l1', l2') \<longrightarrow>
      Lambda_bool l1' = Returns (present w)
      \<and> Lambda_call p l1' args = Lambda_call p (Object w) args
      \<and> Lambda_bool l2' = Returns False)
   \<and> (moveAssignLambda_AllocLambda_Lambda cfg al1 (Object w) h = ((Returns (), al1', l2'), h') \<longrightarrow>
      AllocLambda_bool al1' h' = Returns (present w)
      \<and> AllocLambda_call al1' args h' = op w args
      \<and> Lambda_bool l2' = Returns False)
   \<and> (moveAssignLambda_Lambda_AllocLambda cfg l1 (Some a2) h = ((Returns (), l1'), h')
      \<and> blocks h a2 = Some b2 \<and> contents b2 = Object w
      \<and> \<not> (bufferSize cfg w = 0 \<and> bufferAlignment cfg w = 0)
      \<and> sizeofAllocLambdaWrapperStub cfg \<le> bufferSize cfg w
      \<and> alignofAllocLambdaWrapperStub cfg \<le> bufferAlignment cfg w \<longrightarrow>
      Lambda_bool l1' = Returns (present w)
      \<and> Lambda_call p l1' args = Lambda_call p (Object w) args
      \<and> AllocLambda_bool (Some a2) h' = Returns False)
   \<and> (moveAssignLambda_AllocLambda_AllocLambda cfg al1 (Some a2) h = ((Returns (), al1', al2'), h')
      \<and> blocks h a2 = Some b2 \<and> contents b2 = Object w
      \<and> (if al1 = Some a2 then 2 else 1) \<le> useCount b2 \<and> blocks h (fresh h) = None \<longrightarrow>
      al1' = Some a2 \<and> object_at h' al1' = Some w
      \<and> AllocLambda_bool al1' h' = Returns (present w)
      \<and> AllocLambda_call al1' args h' = op w args
      \<and> al2' = Some (fresh h) \<and> al2' \<noteq> Some a2
      \<and> blocks h' (fresh h) =
          Some \<lparr>contents = Object (AllocLambdaWrapperStub (firstSize cfg) (firstAlignment cfg)),
                useCount = 1, allocSize = firstSize cfg, allocAlignment = firstAlignment cfg\<rparr>
      \<and> AllocLambda_bool al2' h' = Returns False)"
proof (intro conjI impI)
  assume a: "moveAssignLambda_Lambda_Lambda cfg l1 (Object w) = (Returns (), l1', l2')"
  from moveAssign_LL[OF a] show "Lambda_bool l1' = Returns (present w)"
    "Lambda_call p l1' args = Lambda_call p (Object w) args" "Lambda_bool l2' = Returns False"
    by (auto simp add: Lambda_bool_def)
next
  assume a: "moveAssignLambda_AllocLambda_Lambda cfg al1 (Object w) h = ((Returns (), al1', l2'), h')"
  from moveAssign_AL[OF a] show "AllocLambda_bool al1' h' = Returns (present w)"
    "AllocLambda_call al1' args h' = op w args" "Lambda_bool l2' = Returns False"
    by (auto simp add: Lambda_bool_def AllocLambda_bool_def AllocLambda_call_def)
next
  assume a: "moveAssignLambda_Lambda_AllocLambda cfg l1 (Some a2) h = ((Returns (), l1'), h')
      \<and> blocks h a2 = Some b2 \<and> contents b2 = Object w
      \<and> \<not> (bufferSize cfg w = 0 \<and> bufferAlignment cfg w = 0)
      \<and> sizeofAllocLambdaWrapperStub cfg \<le> bufferSize cfg w
      \<and> alignofAllocLambdaWrapperStub cfg \<le> bufferAlignment cfg w"
  then have "\<exists>w1. l1 = Object w1
     \<and> l1' = Object (relocated w (bufferSize cfg w1) (bufferAlignment cfg w1))
     \<and> object_at h' (Some a2) = Some (AllocLambdaWrapperStub (bufferSize cfg w) (bufferAlignment cfg w))"
    by (intro moveAssign_LA[of cfg l1 a2 h l1' h' b2 w]) simp_all
  then show "Lambda_bool l1' = Returns (present w)"
    "Lambda_call p l1' args = Lambda_call p (Object w) args"
    "AllocLambda_bool (Some a2) h' = Returns False"
    by (auto simp add: Lambda_bool_def AllocLambda_bool_def)
next
  assume a: "moveAssignLambda_AllocLambda_AllocLambda cfg al1 (Some a2) h = ((Returns (), al1', al2'), h')
      \<and> blocks h a2 = Some b2 \<and> contents b2 = Object w
      \<and> (if al1 = Some a2 then 2 else 1) \<le> useCount b2 \<and> blocks h (fresh h) = None"
  then have r: "al1' = Some a2 \<and> object_at h' al1' = Some w
     \<and> al2' = Some (fresh h) \<and> al2' \<noteq> Some a2
     \<and> blocks h' (fresh h) = Some \<lparr>contents = Object (AllocLambdaWrapperStub (firstSize cfg) (firstAlignment cfg)),
            useCount = 1, allocSize = firstSize cfg, allocAlignment = firstAlignment cfg\<rparr>"
    by (intro moveAssign_AA[of cfg al1 a2 h al1' al2' h' b2 w]) simp_all
  then show "al1' = Some a2" "object_at h' al1' = Some w"
    "AllocLambda_bool al1' h' = Returns (present w)"
    "AllocLambda_call al1' args h' = op w args"
    "al2' = Some (fresh h)" "al2' \<noteq> Some a2"
    "blocks h' (fresh h) =
          Some \<lparr>contents = Object (AllocLambdaWrapperStub (firstSize cfg) (firstAlignment cfg)),
                useCount = 1, allocSize = firstSize cfg, allocAlignment = firstAlignment cfg\<rparr>"
    "AllocLambda_bool al2' h' = Returns False"
    by (auto simp add: AllocLambda_bool_def AllocLambda_call_def object_at_def)
qed

lemma move_into_heap:
  "moveAssignLambda_AllocLambda_Lambda cfg64 (Some 2) holdsAddOne heapXY
     = ((Returns (), Some 2, emptyStub), heapYX)"
  by (auto simp add: moveAssignLambda_AllocLambda_Lambda_def moveBuffer_AllocLambda_Lambda_def
      allocLambdaBufferOp_def object_at_def destroy_at_def set_contents_def copyTo_Alloc_eq
      checkOrReallocate_def destroy_def initEmptyLambda_NonAlloc_eq
      heapXY_def heapYX_def holdsAddOne_def emptyStub_def cfg64_def addOne_def)

lemma move_out_of_heap:
  "moveAssignLambda_Lambda_AllocLambda cfg64 emptyStub (Some 1) heapXY
     = ((Returns (), holdsAddOne), heapDrained)"
  by (auto simp add: moveAssignLambda_Lambda_AllocLambda_def moveBuffer_Lambda_AllocLambda_def
      object_at_def destroy_at_def set_contents_def copyTo_NonAlloc_eq
      checkOrReallocate_def destroy_def initEmptyLambda_Alloc_def
      heapXY_def heapDrained_def holdsAddOne_def emptyStub_def cfg64_def addOne_def)

theorem move_assignment_witness:
  "moveAssignLambda_Lambda_Lambda cfg64 emptyStub holdsAddOne = (Returns (), holdsAddOne, emptyStub)
   \<and> moveAssignLambda_AllocLambda_Lambda cfg64 (Some 2) holdsAddOne heapXY
       = ((Returns (), Some 2, emptyStub), heapYX)
   \<and> AllocLambda_call (Some 2) 5 heapYX = Returns 6
   \<and> moveAssignLambda_Lambda_AllocLambda cfg64 emptyStub (Some 1) heapXY
       = ((Returns (), holdsAddOne), heapDrained)
   \<and> AllocLambda_bool (Some 1) heapDrained = Returns False
   \<and> moveAssignLambda_AllocLambda_AllocLambda cfg64 (Some 2) (Some 1) heapXY
       = ((Returns (), Some 1, Some 3), heapMoved)
   \<and> AllocLambda_call (Some 1) 5 heapMoved = Returns 6
   \<and> AllocLambda_bool (Some 3) heapMoved = Returns False
   \<and> Lambda_bool holdsAddOne = Returns True
   \<and> Lambda_bool emptyStub = Returns False"
proof -
  let ?b = "\<lparr>contents = Object (AllocLambdaWrapper addOne 64 64),
        useCount = 1, allocSize = 64, allocAlignment = 64\<rparr> :: (nat, nat) block"
  have pre: "blocks heapXY 1 = Some ?b" "contents ?b = Object (AllocLambdaWrapper addOne 64 64)"
    "blocks heapXY (fresh heapXY) = None" "useCount ?b = 1"
    "bufferSize cfg64 (AllocLambdaWrapper addOne 64 64) = 64"
    "bufferAlignment cfg64 (AllocLambdaWrapper addOne 64 64) = 64"
    "sizeofAllocLambdaWrapperStub cfg64 = 24" "alignofAllocLambdaWrapperStub cfg64 = 8"
    by (simp_all add: heapXY_def cfg64_def)
  have c: "op (NonAllocLambdaWrapper addOne) 5 = Returns 6"
    "op (AllocLambdaWrapper addOne 64 64) 5 = Returns 6"
    "present (NonAllocLambdaWrapper addOne)" "present (AllocLambdaWrapper addOne 64 64)"
    by (simp_all add: invoke_def addOne_def)
  from move_inline move_into_heap c
    move_assignment [where cfg = cfg64 and ?l1.0 = emptyStub and w = "NonAllocLambdaWrapper addOne"
      and l1' = holdsAddOne and l2' = emptyStub and ?al1.0 = "Some 2" and h = heapXY
      and al1' = "Some 2" and h' = heapYX and p = unqualified and args = 5]
  have 1: "Lambda_bool holdsAddOne = Returns True" "Lambda_bool emptyStub = Returns False"
    "AllocLambda_call (Some 2) 5 heapYX = Returns 6"
    by (simp_all add: holdsAddOne_def)
  from move_out_of_heap move_XY pre c
    move_assignment [where cfg = cfg64 and ?l1.0 = emptyStub and w = "AllocLambdaWrapper addOne 64 64"
      and l1' = holdsAddOne and ?a2.0 = 1 and h = heapXY and ?b2.0 = ?b
      and ?al1.0 = "Some 2" and al1' = "Some 1" and al2' = "Some 3"
      and h' = heapDrained and p = unqualified and args = 5]
  have 2: "AllocLambda_bool (Some 1) heapDrained = Returns False"
    by simp
  from move_XY pre c
    move_assignment [where cfg = cfg64 and w = "AllocLambdaWrapper addOne 64 64"
      and ?a2.0 = 1 and h = heapXY and ?b2.0 = ?b
      and ?al1.0 = "Some 2" and al1' = "Some 1" and al2' = "Some 3"
      and h' = heapMoved and p = unqualified and args = 5]
  have 3: "AllocLambda_call (Some 1) 5 heapMoved = Returns 6"
    "AllocLambda_bool (Some 3) heapMoved = Returns False"
    by simp_all
  from 1 2 3 move_inline move_into_heap move_out_of_heap move_XY show ?thesis by simp
qed

section \<open>Copies of an AllocLambda\<close>

text \<open>Copy assignment makes the destination point to the source's block and allocates nothing.\<close>

lemma copyAssign_shares:
  assumes "copyAssignLambda_AllocLambda_AllocLambda cfg l1 l2 h = ((r, l1'), h')"
  shows "l1' = l2 \<and> fresh h' = fresh h"
proof -
  from assms obtain r0 where rel: "release cfg l1 (acquire l2 h) = (r0, h')" and l: "l1' = l2"
    by (auto simp add: copyAssignLambda_AllocLambda_AllocLambda_def shared_ptr_assign_def
        split: prod.splits)
  have "fresh (acquire l2 h) = fresh h"
    by (simp add: acquire_def split: option.splits)
  with release_fresh[OF rel] l show ?thesis by simp
qed

text \<open>
  C6 does not hold of the code in its last part. After \<open>a = addOne; b = a\<close> both call
  \<open>addOne\<close>; after \<open>b = timesTwo\<close>, whose wrapper fits the shared buffer, the wrapper has
  been replaced in place and \<open>a\<close> calls \<open>timesTwo\<close> as well.
\<close>

theorem reassigned_copy_overwrites_original:
  "(case AllocLambda_from_Functor cfg64 True addOne emptyHeap of ((r0, a, u0), h0) \<Rightarrow>
    case AllocLambda_default cfg64 h0 of ((r1, b, u1), h1) \<Rightarrow>
    case copyAssignLambda_AllocLambda_AllocLambda cfg64 b a h1 of ((r2, b2), h2) \<Rightarrow>
    case copyAssignFunction_AllocLambda cfg64 b2 timesTwo h2 of ((r3, b3, u3), h3) \<Rightarrow>
      r0 = Returns () \<and> r1 = Returns () \<and> r2 = Returns () \<and> r3 = Returns ()
      \<and> invoke addOne 5 = Returns 6
      \<and> AllocLambda_call a 5 h2 = Returns 6
      \<and> AllocLambda_call b2 5 h2 = Returns 6
      \<and> AllocLambda_call b3 5 h3 = Returns 10
      \<and> AllocLambda_call a 5 h3 = Returns 10)"
  by (simp add: eval_defs addOne_def timesTwo_def)

end
